theory Spec2Isabelle
  imports Main
begin

section \<open>Python values\<close>

text \<open>
  The values that travel through \<^verbatim>\<open>sars.py\<close>: the JSON body of a request, the payload,
  the action, and the dictionaries returned as responses. JSON numbers are integers here.
  A dictionary is an association list in the order the source writes its keys.
\<close>

datatype pyval =
    VNone
  | VBool bool
  | VInt int
  | VStr string
  | VList "pyval list"
  | VDict "(string \<times> pyval) list"

type_synonym dict = "(string \<times> pyval) list"

text \<open>Python truthiness, as used by \<^verbatim>\<open>not x\<close> and \<^verbatim>\<open>x or y\<close>.\<close>

fun truthy :: "pyval \<Rightarrow> bool" where
  "truthy VNone = False"
| "truthy (VBool b) = b"
| "truthy (VInt i) = (i \<noteq> 0)"
| "truthy (VStr s) = (s \<noteq> [])"
| "truthy (VList xs) = (xs \<noteq> [])"
| "truthy (VDict kv) = (kv \<noteq> [])"

fun type_name :: "pyval \<Rightarrow> string" where
  "type_name VNone = ''NoneType''"
| "type_name (VBool b) = ''bool''"
| "type_name (VInt i) = ''int''"
| "type_name (VStr s) = ''str''"
| "type_name (VList xs) = ''list''"
| "type_name (VDict kv) = ''dict''"

text \<open>
  An exception is an instance of a subclass of \<^verbatim>\<open>Exception\<close>: its class name and the
  text \<^verbatim>\<open>str(e)\<close> that the handlers format into their messages.
\<close>

datatype exn = Exn (cls: string) (msg: string)

definition attribute_error :: "pyval \<Rightarrow> string \<Rightarrow> exn" where
  "attribute_error v a =
     Exn ''AttributeError''
       ([CHR 0x27] @ type_name v @ [CHR 0x27] @ '' object has no attribute '' @ [CHR 0x27] @ a
          @ [CHR 0x27])"

text \<open>\<^verbatim>\<open>d.get(k)\<close> on a dictionary that is already known to be one.\<close>

definition dict_get :: "dict \<Rightarrow> string \<Rightarrow> pyval" where
  "dict_get d k = (case map_of d k of None \<Rightarrow> VNone | Some v \<Rightarrow> v)"

text \<open>
  \<^verbatim>\<open>obj.get(k, default)\<close> on any value: only a dictionary has the method, every other
  value raises AttributeError.
\<close>

fun py_get :: "pyval \<Rightarrow> string \<Rightarrow> pyval \<Rightarrow> exn + pyval" where
  "py_get (VDict kv) k dflt = Inr (case map_of kv k of None \<Rightarrow> dflt | Some v \<Rightarrow> v)"
| "py_get v k dflt = Inl (attribute_error v ''get'')"

section \<open>Strings\<close>

text \<open>
  Strings are byte strings. \<^verbatim>\<open>str.lower()\<close> maps the ASCII capitals to small letters and
  leaves every other byte as it is; the program only compares lower-cased text with ASCII
  patterns.
\<close>

definition lower_char :: "char \<Rightarrow> char" where
  "lower_char c =
     (case map_of (zip ''ABCDEFGHIJKLMNOPQRSTUVWXYZ'' ''abcdefghijklmnopqrstuvwxyz'') c of
        None \<Rightarrow> c
      | Some l \<Rightarrow> l)"

definition lower :: "string \<Rightarrow> string" where
  "lower s = map lower_char s"

fun startswith :: "string \<Rightarrow> string \<Rightarrow> bool" where
  "startswith [] s = True"
| "startswith (p # ps) [] = False"
| "startswith (p # ps) (c # cs) = (p = c \<and> startswith ps cs)"

text \<open>\<^verbatim>\<open>p in s\<close> for strings: \<open>p\<close> occurs in \<open>s\<close> as a contiguous piece.\<close>

fun str_in :: "string \<Rightarrow> string \<Rightarrow> bool" where
  "str_in p [] = (p = [])"
| "str_in p (c # cs) = (startswith p (c # cs) \<or> str_in p cs)"

text \<open>\<^verbatim>\<open>str(n)\<close> for an integer, as the f-string of the screenshot path formats it.\<close>

function str_nat :: "nat \<Rightarrow> string" where
  "str_nat n =
     (if n < 10 then [''0123456789'' ! n]
      else str_nat (n div 10) @ [''0123456789'' ! (n mod 10)])"
  by pat_completeness auto
termination
  by (relation "measure id") auto

declare str_nat.simps [simp del]

definition str_int :: "int \<Rightarrow> string" where
  "str_int i = (if i < 0 then ''-'' @ str_nat (nat (- i)) else str_nat (nat i))"

section \<open>The browser as an environment\<close>

text \<open>
  Selenium, the Chrome driver manager, BeautifulSoup, the clock and the thread pool are not
  part of the repository. Every call the program makes to them is recorded in a trace, and
  the environment decides, from the trace so far, whether the call returns (and what) or
  raises.
\<close>

type_synonym driver = nat

datatype locator = ById string | ByXPath string | ByTagName string

datatype cond = presence_of_element_located locator | url_contains string

text \<open>The four page elements the login binds to local variables, named as the source names them.\<close>

datatype elem = username_input | next_btn | password_input | login_btn

record options =
  arguments :: "string list"
  experimental_options :: "(string \<times> string list) list"

datatype call =
    Install
  | Chrome options
  | SetPageLoadTimeout driver nat
  | Get driver string
  | Until driver nat cond
  | Clear elem
  | SendKeys elem pyval
  | Click elem
  | ExecuteScript driver string elem
  | Sleep nat
  | CurrentUrl driver
  | PageSource driver
  | SaveScreenshot driver string
  | Quit driver

datatype outcome = Returns string | Raises exn

text \<open>
  \<open>answer\<close>: the outcome of the last call of a trace. \<open>polls\<close>: how many further polls
  fit into the timeout of a wait that starts after the given trace. \<open>clock\<close>:
  \<^verbatim>\<open>int(time.time())\<close>. \<open>soup_text\<close>: BeautifulSoup's parse followed by \<^verbatim>\<open>get_text\<close>.
  \<open>chrome_user_data_dir\<close>, \<open>chrome_profile\<close>: the two optional settings read from the process
  environment. \<open>result_timeout\<close>: whether the 300 seconds of \<^verbatim>\<open>future.result\<close> ran out
  before the submitted task finished.
\<close>

record world =
  answer :: "call list \<Rightarrow> outcome"
  polls :: "call list \<Rightarrow> nat"
  clock :: "call list \<Rightarrow> int"
  soup_text :: "string \<Rightarrow> exn + string"
  chrome_user_data_dir :: "string option"
  chrome_profile :: "string option"
  result_timeout :: "call list \<Rightarrow> bool"

text \<open>A computation extends the trace and either returns a value or raises.\<close>

type_synonym 'a io = "call list \<Rightarrow> (exn + 'a) \<times> call list"

definition ret :: "'a \<Rightarrow> 'a io" where
  "ret x = (\<lambda>tr. (Inr x, tr))"

definition raise :: "exn \<Rightarrow> 'a io" where
  "raise e = (\<lambda>tr. (Inl e, tr))"

definition lift :: "exn + 'a \<Rightarrow> 'a io" where
  "lift r = (\<lambda>tr. (r, tr))"

definition bind :: "'a io \<Rightarrow> ('a \<Rightarrow> 'b io) \<Rightarrow> 'b io" where
  "bind m f = (\<lambda>tr. case m tr of (Inl e, tr') \<Rightarrow> (Inl e, tr') | (Inr x, tr') \<Rightarrow> f x tr')"

text \<open>\<^verbatim>\<open>try: m  except: h\<close> (every exception of the model is an \<^verbatim>\<open>Exception\<close>).\<close>

definition try_except :: "'a io \<Rightarrow> (exn \<Rightarrow> 'a io) \<Rightarrow> 'a io" where
  "try_except m h = (\<lambda>tr. case m tr of (Inl e, tr') \<Rightarrow> h e tr' | (Inr x, tr') \<Rightarrow> (Inr x, tr'))"

text \<open>
  \<^verbatim>\<open>try: m  finally: fin\<close>: \<open>fin\<close> runs on every exit of \<open>m\<close>; the outcome of \<open>m\<close> stands
  unless \<open>fin\<close> itself raises.
\<close>

definition try_finally :: "'a io \<Rightarrow> unit io \<Rightarrow> 'a io" where
  "try_finally m fin =
     (\<lambda>tr. case m tr of (r, tr') \<Rightarrow>
        (case fin tr' of (Inl e, tr'') \<Rightarrow> (Inl e, tr'') | (Inr u, tr'') \<Rightarrow> (r, tr'')))"

definition do_call :: "world \<Rightarrow> call \<Rightarrow> string io" where
  "do_call w c =
     (\<lambda>tr. case answer w (tr @ [c]) of
        Returns s \<Rightarrow> (Inr s, tr @ [c])
      | Raises e \<Rightarrow> (Inl e, tr @ [c]))"

text \<open>\<^verbatim>\<open>time.sleep\<close> returns always; the argument is in milliseconds.\<close>

definition sleep :: "nat \<Rightarrow> unit io" where
  "sleep ms = (\<lambda>tr. (Inr (), tr @ [Sleep ms]))"

text \<open>
  \<^verbatim>\<open>WebDriverWait.until(method)\<close> for a method written in the repository: it polls the
  method at least once, returns at the first truthy value, ignores NoSuchElementException,
  lets every other exception through and raises TimeoutException when the time is up.
\<close>

definition timeout_exception :: exn where
  "timeout_exception = Exn ''TimeoutException'' (''Message: '' @ [CHR 0x0A])"

definition ignored :: "exn \<Rightarrow> bool" where
  "ignored e = (cls e = ''NoSuchElementException'')"

primrec poll_until :: "bool io \<Rightarrow> nat \<Rightarrow> unit io" where
  "poll_until m 0 =
     (\<lambda>tr. case m tr of
        (Inr True, tr') \<Rightarrow> (Inr (), tr')
      | (Inr False, tr') \<Rightarrow> (Inl timeout_exception, tr')
      | (Inl e, tr') \<Rightarrow> if ignored e then (Inl timeout_exception, tr') else (Inl e, tr'))"
| "poll_until m (Suc k) =
     (\<lambda>tr. case m tr of
        (Inr True, tr') \<Rightarrow> (Inr (), tr')
      | (Inr False, tr') \<Rightarrow> poll_until m k tr'
      | (Inl e, tr') \<Rightarrow> if ignored e then poll_until m k tr' else (Inl e, tr'))"

definition until :: "world \<Rightarrow> bool io \<Rightarrow> unit io" where
  "until w m = (\<lambda>tr. poll_until m (polls w tr) tr)"

section \<open>Settings and driver construction\<close>

definition browser_timeout :: nat where
  "browser_timeout = 30"

definition profile_arguments :: "string option \<Rightarrow> string option \<Rightarrow> string list" where
  "profile_arguments user_data_dir profile =
     (case (user_data_dir, profile) of
        (Some d, Some p) \<Rightarrow>
          if d \<noteq> [] \<and> p \<noteq> []
          then [''--user-data-dir='' @ d, ''--profile-directory='' @ p] else []
      | _ \<Rightarrow> [])"

definition chrome_options :: "world \<Rightarrow> options" where
  "chrome_options w =
     \<lparr> arguments =
         [''--headless=new'', ''--disable-gpu'', ''--no-sandbox'', ''--disable-dev-shm-usage'',
          ''--disable-extensions'', ''--disable-notifications'', ''--window-size=1920,1080'',
          ''--disable-blink-features=AutomationControlled'']
         @ profile_arguments (chrome_user_data_dir w) (chrome_profile w),
       experimental_options = [(''excludeSwitches'', [''enable-logging''])] \<rparr>"

text \<open>
  \<^verbatim>\<open>webdriver.Chrome(...)\<close> hands out a new driver object; it is identified by the position
  of its launch in the trace.
\<close>

definition launch :: "world \<Rightarrow> options \<Rightarrow> driver io" where
  "launch w opts = (\<lambda>tr. case do_call w (Chrome opts) tr of
       (Inl e, tr') \<Rightarrow> (Inl e, tr')
     | (Inr s, tr') \<Rightarrow> (Inr (length tr), tr'))"

definition create_driver :: "world \<Rightarrow> driver io" where
  "create_driver w =
     bind (do_call w Install) (\<lambda>service.
     bind (launch w (chrome_options w)) (\<lambda>driver.
     bind (do_call w (SetPageLoadTimeout driver (browser_timeout + 30))) (\<lambda>u.
     ret driver)))"

text \<open>The module-level variable \<^verbatim>\<open>persistent_driver\<close> and its accessor.\<close>

record server =
  persistent_driver :: "driver option"
  calls :: "call list"

definition get_driver :: "world \<Rightarrow> server \<Rightarrow> (exn + driver) \<times> server" where
  "get_driver w s =
     (case persistent_driver s of
        Some d \<Rightarrow> (Inr d, s)
      | None \<Rightarrow>
         (case create_driver w (calls s) of
            (Inl e, tr') \<Rightarrow> (Inl e, s\<lparr>calls := tr'\<rparr>)
          | (Inr d, tr') \<Rightarrow> (Inr d, s\<lparr>persistent_driver := Some d, calls := tr'\<rparr>)))"

section \<open>Login\<close>

definition login_url :: string where
  "login_url = ''https://secure.sarsefiling.co.za/app/login''"

definition next_xpath :: string where
  "next_xpath = ''//button[.//span[normalize-space(text())='Next']]''"

definition login_xpath :: string where
  "login_xpath = ''//button[.//span[normalize-space(text())='Login']]''"

definition scroll_script :: string where
  "scroll_script = ''arguments[0].scrollIntoView(true);''"

definition click_script :: string where
  "click_script = ''arguments[0].click();''"

text \<open>\<^verbatim>\<open>try: e.click()  except: driver.execute_script("arguments[0].click();", e)\<close>\<close>

definition click_or_script :: "world \<Rightarrow> driver \<Rightarrow> elem \<Rightarrow> string io" where
  "click_or_script w driver e =
     try_except (do_call w (Click e)) (\<lambda>x. do_call w (ExecuteScript driver click_script e))"

text \<open>
  The method of the last wait:
  \<^verbatim>\<open>lambda d: "/app/login" not in d.current_url.lower()
                and "/app/auth/password" not in d.current_url.lower()\<close>.
  Each \<^verbatim>\<open>d.current_url\<close> asks the browser; the second is only read when the first
  conjunct holds.
\<close>

definition left_login :: "world \<Rightarrow> driver \<Rightarrow> bool io" where
  "left_login w d =
     bind (do_call w (CurrentUrl d)) (\<lambda>u1.
       if str_in ''/app/login'' (lower u1) then ret False
       else bind (do_call w (CurrentUrl d)) (\<lambda>u2.
              ret (\<not> str_in ''/app/auth/password'' (lower u2))))"

definition login_ok :: "string \<Rightarrow> dict" where
  "login_ok url =
     [(''status'', VStr ''ok''), (''message'', VStr ''Login successful''),
      (''current_url'', VStr url)]"

definition login_failed :: "exn \<Rightarrow> string \<Rightarrow> dict" where
  "login_failed e screenshot_path =
     [(''status'', VStr ''error''), (''message'', VStr (''Login failed: '' @ msg e)),
      (''screenshot'', VStr screenshot_path)]"

definition screenshot_path :: "int \<Rightarrow> string" where
  "screenshot_path ts = ''screenshot_'' @ str_int ts @ ''.png''"

definition login_steps :: "world \<Rightarrow> driver \<Rightarrow> pyval \<Rightarrow> pyval \<Rightarrow> dict io" where
  "login_steps w driver username password =
     bind (do_call w (Get driver login_url)) (\<lambda>u.
     bind (do_call w (Until driver browser_timeout
                        (presence_of_element_located (ById ''username'')))) (\<lambda>u.
     bind (do_call w (Clear username_input)) (\<lambda>u.
     bind (do_call w (SendKeys username_input username)) (\<lambda>u.
     bind (do_call w (Until driver browser_timeout
                        (presence_of_element_located (ByXPath next_xpath)))) (\<lambda>u.
     bind (do_call w (ExecuteScript driver scroll_script next_btn)) (\<lambda>u.
     bind (sleep 500) (\<lambda>u.
     bind (click_or_script w driver next_btn) (\<lambda>u.
     bind (do_call w (Until driver browser_timeout (url_contains ''/app/auth/password''))) (\<lambda>u.
     bind (do_call w (Until driver browser_timeout
                        (presence_of_element_located (ById ''password'')))) (\<lambda>u.
     bind (do_call w (Clear password_input)) (\<lambda>u.
     bind (do_call w (SendKeys password_input password)) (\<lambda>u.
     bind (do_call w (Until driver browser_timeout
                        (presence_of_element_located (ByXPath login_xpath)))) (\<lambda>u.
     bind (do_call w (ExecuteScript driver scroll_script login_btn)) (\<lambda>u.
     bind (sleep 500) (\<lambda>u.
     bind (click_or_script w driver login_btn) (\<lambda>u.
     bind (until w (left_login w driver)) (\<lambda>u.
     bind (do_call w (CurrentUrl driver)) (\<lambda>url.
     ret (login_ok url)))))))))))))))))))"

text \<open>
  The handler of \<^verbatim>\<open>login_action\<close>: the path is built from the clock, the screenshot is
  attempted, and whatever \<^verbatim>\<open>save_screenshot\<close> does, the error dictionary is returned.
\<close>

definition login_handler :: "world \<Rightarrow> driver \<Rightarrow> exn \<Rightarrow> dict io" where
  "login_handler w driver e =
     (\<lambda>tr. let ts = clock w tr; path = screenshot_path ts in
        bind (try_except (do_call w (SaveScreenshot driver path)) (\<lambda>x. ret []))
             (\<lambda>u. ret (login_failed e path)) tr)"

definition login_action :: "world \<Rightarrow> driver \<Rightarrow> pyval \<Rightarrow> pyval \<Rightarrow> dict io" where
  "login_action w driver username password =
     try_except (login_steps w driver username password) (login_handler w driver)"

section \<open>Scrape dashboard\<close>

definition dashboard_url :: string where
  "dashboard_url = ''https://secure.sarsefiling.co.za/app/dashboard/organization''"

definition scrape_ok :: "string \<Rightarrow> dict" where
  "scrape_ok page_text =
     [(''status'', VStr ''ok''), (''dashboard_url'', VStr dashboard_url),
      (''text'', VStr page_text)]"

definition scrape_failed :: "exn \<Rightarrow> dict" where
  "scrape_failed e =
     [(''status'', VStr ''error''),
      (''message'', VStr (''scrape_organization_dashboard failed: '' @ msg e))]"

definition scrape_organization_dashboard :: "world \<Rightarrow> driver \<Rightarrow> dict io" where
  "scrape_organization_dashboard w driver =
     try_except
       (bind (do_call w (Get driver dashboard_url)) (\<lambda>u.
        bind (do_call w (Until driver browser_timeout
                           (presence_of_element_located (ByTagName ''body'')))) (\<lambda>u.
        bind (sleep 3000) (\<lambda>u.
        bind (do_call w (PageSource driver)) (\<lambda>html.
        bind (lift (soup_text w html)) (\<lambda>page_text.
        ret (scrape_ok page_text)))))))
       (\<lambda>e. ret (scrape_failed e))"

section \<open>Runner\<close>

definition missing_credentials :: dict where
  "missing_credentials =
     [(''status'', VStr ''error''),
      (''message'', VStr (''Missing 'username' or 'password'' @ [CHR 0x27]))]"

definition unknown_action :: "string \<Rightarrow> dict" where
  "unknown_action a =
     [(''status'', VStr ''error''),
      (''message'', VStr (''Unknown action '' @ [CHR 0x27] @ a @ [CHR 0x27]))]"

definition unexpected_error :: "exn \<Rightarrow> dict" where
  "unexpected_error e =
     [(''status'', VStr ''error''), (''message'', VStr (''Unexpected error: '' @ msg e))]"

text \<open>\<^verbatim>\<open>payload = payload or {}\<close>\<close>

definition payload_or_empty :: "pyval \<Rightarrow> pyval" where
  "payload_or_empty payload = (if truthy payload then payload else VDict [])"

text \<open>
  The statements of the \<^verbatim>\<open>try\<close> block after \<^verbatim>\<open>driver = create_driver()\<close>, with the driver
  already bound.
\<close>

definition dispatch :: "world \<Rightarrow> driver \<Rightarrow> pyval \<Rightarrow> pyval \<Rightarrow> dict io" where
  "dispatch w driver action payload =
     bind (lift (py_get payload ''username'' VNone)) (\<lambda>username.
     bind (lift (py_get payload ''password'' VNone)) (\<lambda>password.
       case action of
         VStr a \<Rightarrow>
           if lower a = ''login'' then
             if \<not> truthy username \<or> \<not> truthy password then ret missing_credentials
             else login_action w driver username password
           else if lower a = ''scrape_dashboard'' then
             if \<not> truthy username \<or> \<not> truthy password then ret missing_credentials
             else bind (login_action w driver username password) (\<lambda>login_resp.
                    if dict_get login_resp ''status'' \<noteq> VStr ''ok'' then ret login_resp
                    else scrape_organization_dashboard w driver)
           else ret (unknown_action a)
       | _ \<Rightarrow> raise (attribute_error action ''lower'')))"

text \<open>
  \<^verbatim>\<open>run_action_sync\<close>. The local \<^verbatim>\<open>driver\<close> is \<^verbatim>\<open>None\<close> exactly when \<^verbatim>\<open>create_driver\<close>
  raised: then the handler answers and the \<^verbatim>\<open>finally\<close> block has nothing to quit.
  Otherwise the rest of the \<^verbatim>\<open>try\<close> block runs under the handler, and the \<^verbatim>\<open>finally\<close>
  block calls \<^verbatim>\<open>driver.quit()\<close>, swallowing what it raises.
\<close>

definition run_action_sync :: "world \<Rightarrow> pyval \<Rightarrow> pyval \<Rightarrow> dict io" where
  "run_action_sync w action payload =
     (\<lambda>tr. case create_driver w tr of
          (Inl e, tr') \<Rightarrow> (Inr (unexpected_error e), tr')
        | (Inr driver, tr') \<Rightarrow>
            try_finally
              (try_except (dispatch w driver action (payload_or_empty payload))
                 (\<lambda>e. ret (unexpected_error e)))
              (try_except (bind (do_call w (Quit driver)) (\<lambda>u. ret ())) (\<lambda>e. ret ()))
              tr')"

section \<open>Endpoints\<close>

definition missing_action :: dict where
  "missing_action =
     [(''status'', VStr ''error''), (''message'', VStr (''Missing 'action'' @ [CHR 0x27]))]"

definition server_error :: "exn \<Rightarrow> dict" where
  "server_error e =
     [(''status'', VStr ''error''),
      (''message'', VStr (''Unexpected server error: '' @ msg e))]"

definition timeout_error :: exn where
  "timeout_error = Exn ''TimeoutError'' []"

text \<open>
  \<^verbatim>\<open>executor.submit(task).result(timeout=300)\<close>: the task runs on the pool; the caller gets
  its outcome, or TimeoutError when the 300 seconds ran out first.
\<close>

definition future_result :: "world \<Rightarrow> 'a io \<Rightarrow> 'a io" where
  "future_result w task =
     (\<lambda>tr. case task tr of (r, tr') \<Rightarrow>
        if result_timeout w tr' then (Inl timeout_error, tr') else (r, tr'))"

text \<open>
  An endpoint body of the form \<^verbatim>\<open>try: return m  except Exception as e: return h(e)\<close>:
  it always hands a dictionary to the framework.
\<close>

definition returning :: "'a io \<Rightarrow> (exn \<Rightarrow> 'a) \<Rightarrow> call list \<Rightarrow> 'a \<times> call list" where
  "returning m h = (\<lambda>tr. case m tr of (Inl e, tr') \<Rightarrow> (h e, tr') | (Inr x, tr') \<Rightarrow> (x, tr'))"

text \<open>\<^verbatim>\<open>run\<close>: the first argument after the world is what \<^verbatim>\<open>await request.json()\<close> did.\<close>

definition run :: "world \<Rightarrow> exn + pyval \<Rightarrow> call list \<Rightarrow> dict \<times> call list" where
  "run w request_json =
     returning
       (bind (lift request_json) (\<lambda>body.
        bind (lift (py_get body ''action'' VNone)) (\<lambda>action.
        bind (lift (py_get body ''payload'' (VDict []))) (\<lambda>payload.
          if \<not> truthy action then ret missing_action
          else future_result w (run_action_sync w action payload)))))
       server_error"

definition ping :: dict where
  "ping = [(''message'', VStr ''ping - server up'')]"

text \<open>The routes the decorators of the module register.\<close>

datatype http_method = GET | POST | PUT | PATCH | DELETE | HEAD | OPTIONS

datatype endpoint = run_endpoint | ping_endpoint

definition routes :: "((http_method \<times> string) \<times> endpoint) list" where
  "routes = [((POST, ''/run''), run_endpoint), ((GET, ''/ping''), ping_endpoint)]"

definition route :: "http_method \<Rightarrow> string \<Rightarrow> endpoint option" where
  "route m p = map_of routes (m, p)"

text \<open>
  A request: its method, its path, and what \<^verbatim>\<open>await request.json()\<close> does with its body.
  Serving it looks the route up; a request that matches no route of the module gets no
  response from the module. Only the trace of the server changes hands with an endpoint,
  as neither endpoint names the module variable.
\<close>

datatype request = Request http_method string "exn + pyval"

definition serve :: "world \<Rightarrow> request \<Rightarrow> server \<Rightarrow> dict option \<times> server" where
  "serve w rq s =
     (case rq of Request m p request_json \<Rightarrow>
        (case route m p of
           None \<Rightarrow> (None, s)
         | Some run_endpoint \<Rightarrow>
             (case run w request_json (calls s) of (d, tr') \<Rightarrow> (Some d, s\<lparr>calls := tr'\<rparr>))
         | Some ping_endpoint \<Rightarrow> (Some ping, s)))"


section \<open>The order of the login, as the specification words it\<close>

text \<open>
  The calls of a login in the order the specification lists them; \<open>fb1\<close> and \<open>fb2\<close> are the
  script clicks that stand in when the plain click of the Next or Login button raised.
\<close>

definition login_order :: "driver \<Rightarrow> pyval \<Rightarrow> pyval \<Rightarrow> call list \<Rightarrow> call list \<Rightarrow> call list" where
  "login_order d username password fb1 fb2 =
     [Get d login_url,
      Until d browser_timeout (presence_of_element_located (ById ''username'')),
      Clear username_input,
      SendKeys username_input username,
      Until d browser_timeout (presence_of_element_located (ByXPath next_xpath)),
      ExecuteScript d scroll_script next_btn,
      Sleep 500,
      Click next_btn] @ fb1 @
     [Until d browser_timeout (url_contains ''/app/auth/password''),
      Until d browser_timeout (presence_of_element_located (ById ''password'')),
      Clear password_input,
      SendKeys password_input password,
      Until d browser_timeout (presence_of_element_located (ByXPath login_xpath)),
      ExecuteScript d scroll_script login_btn,
      Sleep 500,
      Click login_btn] @ fb2"

section \<open>Sample environments\<close>

text \<open>A portal where every call returns and the browser is on the home page at every read.\<close>

definition home_url :: string where
  "home_url = ''https://secure.sarsefiling.co.za/app/Home''"

definition calm_world :: world where
  "calm_world =
     \<lparr> answer = (\<lambda>tr. Returns home_url), polls = (\<lambda>tr. 0), clock = (\<lambda>tr. 1700000000),
       soup_text = (\<lambda>html. Inr ''Dashboard''), chrome_user_data_dir = None,
       chrome_profile = None, result_timeout = (\<lambda>tr. False) \<rparr>"

text \<open>A host on which no call to the browser stack succeeds.\<close>

definition no_chrome_world :: world where
  "no_chrome_world =
     calm_world \<lparr> answer := (\<lambda>tr. Raises (Exn ''WebDriverException'' ''no chrome'')) \<rparr>"

text \<open>A browser that starts and then dies: only driver construction and quitting succeed.\<close>

definition dead_browser_world :: world where
  "dead_browser_world =
     calm_world \<lparr> answer := (\<lambda>tr. case last tr of
         Install \<Rightarrow> Returns []
       | Chrome opts \<Rightarrow> Returns []
       | SetPageLoadTimeout d n \<Rightarrow> Returns []
       | Quit d \<Rightarrow> Returns []
       | _ \<Rightarrow> Raises (Exn ''WebDriverException'' ''session deleted'')) \<rparr>"

text \<open>A browser whose address changes once, between the first and the second read.\<close>

definition password_page :: string where
  "password_page = ''https://secure.sarsefiling.co.za/app/auth/password''"

definition flip_world :: world where
  "flip_world =
     calm_world \<lparr> answer := (\<lambda>tr. case last tr of
         CurrentUrl d \<Rightarrow>
           if count_list tr (CurrentUrl d) = 1 then Returns password_page else Returns login_url
       | _ \<Rightarrow> Returns []) \<rparr>"

text \<open>A browser that launches and cannot be reached afterwards.\<close>

definition stillborn_world :: world where
  "stillborn_world =
     calm_world \<lparr> answer := (\<lambda>tr. case last tr of
         SetPageLoadTimeout d n \<Rightarrow> Raises (Exn ''WebDriverException'' ''chrome not reachable'')
       | _ \<Rightarrow> Returns []) \<rparr>"

text \<open>A browser that works and cannot be reached when it is told to quit.\<close>

definition stuck_quit_world :: world where
  "stuck_quit_world =
     calm_world \<lparr> answer := (\<lambda>tr. case last tr of
         Quit d \<Rightarrow> Raises (Exn ''WebDriverException'' ''chrome not reachable'')
       | _ \<Rightarrow> Returns home_url) \<rparr>"

definition credentials :: dict where
  "credentials = [(''username'', VStr ''u''), (''password'', VStr ''p'')]"


section \<open>Predicates on traces and results\<close>

text \<open>A computation only appends calls, and each appended call satisfies \<open>P\<close>.\<close>

definition emits :: "(call \<Rightarrow> bool) \<Rightarrow> 'a io \<Rightarrow> bool" where
  "emits P m = (\<forall>tr. \<exists>cs. snd (m tr) = tr @ cs \<and> list_all P cs)"

text \<open>What the login may call: nothing but its own page, elements, waits and screenshot.\<close>

fun login_call :: "driver \<Rightarrow> call \<Rightarrow> bool" where
  "login_call d (Get d' url) = (d' = d \<and> url = login_url)"
| "login_call d (Until d' n c) = (d' = d)"
| "login_call d (Clear e) = True"
| "login_call d (SendKeys e v) = True"
| "login_call d (Click e) = True"
| "login_call d (ExecuteScript d' s e) = (d' = d)"
| "login_call d (Sleep n) = True"
| "login_call d (CurrentUrl d') = (d' = d)"
| "login_call d (SaveScreenshot d' p) = (d' = d)"
| "login_call d c = False"

fun scrape_call :: "driver \<Rightarrow> call \<Rightarrow> bool" where
  "scrape_call d (Get d' url) = (d' = d \<and> url = dashboard_url)"
| "scrape_call d (Until d' n c) = (d' = d)"
| "scrape_call d (Sleep n) = True"
| "scrape_call d (PageSource d') = (d' = d)"
| "scrape_call d c = False"

definition session_call :: "driver \<Rightarrow> call \<Rightarrow> bool" where
  "session_call d c = (login_call d c \<or> scrape_call d c)"

text \<open>The \<^verbatim>\<open>try\<close> block of the runner after driver creation, under its handler.\<close>

definition guarded :: "world \<Rightarrow> driver \<Rightarrow> pyval \<Rightarrow> pyval \<Rightarrow> dict io" where
  "guarded w d a p =
     try_except (dispatch w d a (payload_or_empty p)) (\<lambda>e. ret (unexpected_error e))"

text \<open>An error dictionary with exactly the keys status and message.\<close>

definition plain_error :: "dict \<Rightarrow> bool" where
  "plain_error r = (\<exists>m. r = [(''status'', VStr ''error''), (''message'', VStr m)])"

text \<open>
  A result \<open>r\<close> and a trace \<open>t\<close> that a failed login left behind, started somewhere after
  the trace \<open>tr\<close>, with the calls \<open>suffix\<close> made after the screenshot call.
\<close>

definition from_failed_login :: "world \<Rightarrow> call list \<Rightarrow> dict \<Rightarrow> call list \<Rightarrow> driver \<Rightarrow> call list \<Rightarrow> bool" where
  "from_failed_login w tr r t d suffix =
     (\<exists>u p t1 e t0 pre mid.
        t1 = tr @ pre \<and> login_steps w d u p t1 = (Inl e, t0) \<and> t0 = t1 @ mid
        \<and> r = login_failed e (screenshot_path (clock w t0))
        \<and> t = t0 @ SaveScreenshot d (screenshot_path (clock w t0)) # suffix)"


section \<open>Reading a computation backwards\<close>

lemma bind_InrE:
  assumes "bind m f tr = (Inr y, tr')"
  obtains x t where "m tr = (Inr x, t)" and "f x t = (Inr y, tr')"
  using assms by (auto simp: bind_def split: prod.splits sum.splits)

lemma do_call_InrE:
  assumes "do_call w c tr = (Inr s, t)"
  obtains "t = tr @ [c]" and "answer w (tr @ [c]) = Returns s"
  using assms by (auto simp: do_call_def split: outcome.splits)

lemma sleep_InrE:
  assumes "sleep n tr = (Inr u, t)"
  obtains "t = tr @ [Sleep n]"
  using assms by (auto simp: sleep_def)

lemma ret_InrE:
  assumes "ret x tr = (Inr y, t)"
  obtains "y = x" and "t = tr"
  using assms by (auto simp: ret_def)

lemma click_or_script_InrE:
  assumes "click_or_script w d e tr = (Inr s, t)"
  obtains fb where "fb \<in> {[], [ExecuteScript d click_script e]}" and "t = tr @ Click e # fb"
  using assms
  by (auto simp: click_or_script_def try_except_def do_call_def split: outcome.splits)

section \<open>The last wait of the login\<close>

lemma left_login_True:
  assumes "left_login w d tr = (Inr True, t)"
  shows "\<exists>u1 u2. t = tr @ [CurrentUrl d, CurrentUrl d]
       \<and> answer w (tr @ [CurrentUrl d]) = Returns u1
       \<and> \<not> str_in ''/app/login'' (lower u1)
       \<and> answer w t = Returns u2
       \<and> \<not> str_in ''/app/auth/password'' (lower u2)"
  using assms
  by (auto simp: left_login_def bind_def do_call_def ret_def
      split: outcome.splits if_splits)

lemma left_login_trace:
  "snd (left_login w d tr) = tr @ [CurrentUrl d]
   \<or> snd (left_login w d tr) = tr @ [CurrentUrl d, CurrentUrl d]"
  by (auto simp: left_login_def bind_def do_call_def ret_def
      split: outcome.splits if_splits)

lemma poll_left_login:
  "poll_until (left_login w d) n tr = (Inr u, tr') \<Longrightarrow>
     \<exists>pre u1 u2. tr' = tr @ pre @ [CurrentUrl d, CurrentUrl d]
       \<and> set pre \<subseteq> {CurrentUrl d}
       \<and> answer w (tr @ pre @ [CurrentUrl d]) = Returns u1
       \<and> \<not> str_in ''/app/login'' (lower u1)
       \<and> answer w tr' = Returns u2
       \<and> \<not> str_in ''/app/auth/password'' (lower u2)"
proof (induction n arbitrary: tr)
  case 0
  obtain r t where rt: "left_login w d tr = (r, t)" by (cases "left_login w d tr")
  with 0 have "r = Inr True" and "t = tr'"
    by (auto split: sum.splits bool.splits if_splits)
  with rt left_login_True[of w d tr tr'] show ?case
    by - (rule exI[of _ "[]"], auto)
next
  case (Suc n)
  obtain r t where rt: "left_login w d tr = (r, t)" by (cases "left_login w d tr")
  show ?case
  proof (cases "r = Inr True")
    case True
    with Suc.prems rt have "t = tr'" by auto
    with True rt left_login_True[of w d tr tr'] show ?thesis
      by - (rule exI[of _ "[]"], auto)
  next
    case False
    with Suc.prems rt have rec: "poll_until (left_login w d) n t = (Inr u, tr')"
      by (auto split: sum.splits bool.splits if_splits)
    from Suc.IH[OF rec] obtain pre u1 u2 where
      p: "tr' = t @ pre @ [CurrentUrl d, CurrentUrl d]" "set pre \<subseteq> {CurrentUrl d}"
         "answer w (t @ pre @ [CurrentUrl d]) = Returns u1" "\<not> str_in ''/app/login'' (lower u1)"
         "answer w tr' = Returns u2" "\<not> str_in ''/app/auth/password'' (lower u2)"
      by blast
    from left_login_trace[of w d tr] rt
    consider "t = tr @ [CurrentUrl d]" | "t = tr @ [CurrentUrl d, CurrentUrl d]" by auto
    then show ?thesis
    proof cases
      case 1
      with p show ?thesis by - (rule exI[of _ "CurrentUrl d # pre"], auto)
    next
      case 2
      with p show ?thesis by - (rule exI[of _ "CurrentUrl d # CurrentUrl d # pre"], auto)
    qed
  qed
qed

lemma until_left_login:
  assumes "until w (left_login w d) tr = (Inr u, tr')"
  shows "\<exists>pre u1 u2. tr' = tr @ pre @ [CurrentUrl d, CurrentUrl d]
       \<and> set pre \<subseteq> {CurrentUrl d}
       \<and> answer w (tr @ pre @ [CurrentUrl d]) = Returns u1
       \<and> \<not> str_in ''/app/login'' (lower u1)
       \<and> answer w tr' = Returns u2
       \<and> \<not> str_in ''/app/auth/password'' (lower u2)"
  using assms poll_left_login[of w d "polls w tr" tr u tr'] by (simp add: until_def)


section \<open>The login, step by step\<close>

lemma login_handler_result:
  "login_handler w d e tr =
     (Inr (login_failed e (screenshot_path (clock w tr))),
      tr @ [SaveScreenshot d (screenshot_path (clock w tr))])"
  by (simp add: login_handler_def Let_def bind_def try_except_def do_call_def ret_def
      split: outcome.splits)

lemma status_login_failed: "dict_get (login_failed e p) ''status'' = VStr ''error''"
  by (simp add: login_failed_def dict_get_def)

lemma login_action_cases:
  assumes "login_action w d u p tr = (r, tr')"
  shows "(\<exists>x. r = Inr x \<and> login_steps w d u p tr = (Inr x, tr'))
       \<or> (\<exists>e t. login_steps w d u p tr = (Inl e, t)
            \<and> r = Inr (login_failed e (screenshot_path (clock w t)))
            \<and> tr' = t @ [SaveScreenshot d (screenshot_path (clock w t))])"
  using assms
  by (auto simp: login_action_def try_except_def login_handler_result
      split: prod.splits sum.splits)

lemma login_steps_Inr:
  assumes "login_steps w d u p tr = (Inr r, tr')"
  shows "\<exists>fb1 fb2 pre u1 u2 url.
      fb1 \<in> {[], [ExecuteScript d click_script next_btn]}
    \<and> fb2 \<in> {[], [ExecuteScript d click_script login_btn]}
    \<and> set pre \<subseteq> {CurrentUrl d}
    \<and> tr' = tr @ login_order d u p fb1 fb2 @ pre @ [CurrentUrl d, CurrentUrl d, CurrentUrl d]
    \<and> answer w (tr @ login_order d u p fb1 fb2 @ pre @ [CurrentUrl d]) = Returns u1
    \<and> \<not> str_in ''/app/login'' (lower u1)
    \<and> answer w (tr @ login_order d u p fb1 fb2 @ pre @ [CurrentUrl d, CurrentUrl d]) = Returns u2
    \<and> \<not> str_in ''/app/auth/password'' (lower u2)
    \<and> answer w tr' = Returns url
    \<and> r = login_ok url"
  using assms unfolding login_steps_def
  apply (elim bind_InrE do_call_InrE sleep_InrE ret_InrE click_or_script_InrE)
  apply (drule until_left_login)
  apply (elim exE conjE)
  apply (rule_tac x=fb in exI, rule_tac x=fba in exI, rule_tac x=pre in exI)
  apply (rule_tac x=u1 in exI, rule_tac x=u2 in exI, rule_tac x=xq in exI)
  apply (simp add: login_order_def)
  done

section \<open>What a computation appends to the trace\<close>

lemma emitsD:
  assumes "emits P m" and "m tr = (r, tr')"
  obtains cs where "tr' = tr @ cs" and "list_all P cs"
  using assms unfolding emits_def by (metis snd_conv)

lemma emits_ret: "emits P (ret x)"
  by (simp add: emits_def ret_def)

lemma emits_raise: "emits P (raise e)"
  by (simp add: emits_def raise_def)

lemma emits_lift: "emits P (lift r)"
  by (simp add: emits_def lift_def)

lemma emits_do_call: "P c \<Longrightarrow> emits P (do_call w c)"
  by (auto simp: emits_def do_call_def split: outcome.splits)

lemma emits_sleep: "P (Sleep n) \<Longrightarrow> emits P (sleep n)"
  by (simp add: emits_def sleep_def)

lemma emits_bind:
  assumes "emits P m" and "\<And>x. emits P (f x)"
  shows "emits P (bind m f)"
  unfolding emits_def
proof
  fix tr
  obtain r t where rt: "m tr = (r, t)" by (cases "m tr")
  from emitsD[OF assms(1) rt] obtain cs where cs: "t = tr @ cs" "list_all P cs" .
  show "\<exists>cs. snd (bind m f tr) = tr @ cs \<and> list_all P cs"
  proof (cases r)
    case (Inl e)
    with rt cs show ?thesis by (simp add: bind_def)
  next
    case (Inr x)
    obtain r' t' where rt': "f x t = (r', t')" by (cases "f x t")
    from emitsD[OF assms(2) rt'] obtain cs' where "t' = t @ cs'" "list_all P cs'" .
    with Inr rt rt' cs show ?thesis by (simp add: bind_def)
  qed
qed

lemma emits_try_except:
  assumes "emits P m" and "\<And>e. emits P (h e)"
  shows "emits P (try_except m h)"
  unfolding emits_def
proof
  fix tr
  obtain r t where rt: "m tr = (r, t)" by (cases "m tr")
  from emitsD[OF assms(1) rt] obtain cs where cs: "t = tr @ cs" "list_all P cs" .
  show "\<exists>cs. snd (try_except m h tr) = tr @ cs \<and> list_all P cs"
  proof (cases r)
    case (Inr x)
    with rt cs show ?thesis by (simp add: try_except_def)
  next
    case (Inl e)
    obtain r' t' where rt': "h e t = (r', t')" by (cases "h e t")
    from emitsD[OF assms(2) rt'] obtain cs' where "t' = t @ cs'" "list_all P cs'" .
    with Inl rt rt' cs show ?thesis by (simp add: try_except_def)
  qed
qed

lemma emits_poll_until:
  assumes "emits P m"
  shows "emits P (poll_until m n)"
proof (induction n)
  case 0
  show ?case unfolding emits_def
  proof
    fix tr
    obtain r t where rt: "m tr = (r, t)" by (cases "m tr")
    from emitsD[OF assms rt] obtain cs where "t = tr @ cs" "list_all P cs" .
    with rt show "\<exists>cs. snd (poll_until m 0 tr) = tr @ cs \<and> list_all P cs"
      by (auto split: sum.splits bool.splits)
  qed
next
  case (Suc n)
  show ?case unfolding emits_def
  proof
    fix tr
    obtain r t where rt: "m tr = (r, t)" by (cases "m tr")
    from emitsD[OF assms rt] obtain cs where cs: "t = tr @ cs" "list_all P cs" .
    obtain r' t' where rt': "poll_until m n t = (r', t')" by (cases "poll_until m n t")
    from emitsD[OF Suc rt'] obtain cs' where "t' = t @ cs'" "list_all P cs'" .
    with rt rt' cs show "\<exists>cs. snd (poll_until m (Suc n) tr) = tr @ cs \<and> list_all P cs"
      by (auto split: sum.splits bool.splits)
  qed
qed

lemma emits_until: "emits P m \<Longrightarrow> emits P (until w m)"
  using emits_poll_until[of P m] by (simp add: emits_def until_def)

lemma emits_left_login: "emits (login_call d) (left_login w d)"
  unfolding left_login_def
  by (intro emits_bind emits_do_call emits_ret) (auto intro!: emits_bind emits_do_call emits_ret)

lemma emits_login_action: "emits (login_call d) (login_action w d u p)"
  unfolding login_action_def login_steps_def click_or_script_def
  apply (rule emits_try_except)
   apply (intro emits_bind emits_do_call emits_sleep emits_ret emits_try_except emits_until
      emits_left_login; simp)
  apply (simp add: emits_def login_handler_result)
  done

lemma emits_mono:
  assumes "emits P m" and "\<And>c. P c \<Longrightarrow> Q c"
  shows "emits Q m"
  using assms unfolding emits_def list_all_iff by metis

lemma emits_scrape: "emits (scrape_call d) (scrape_organization_dashboard w d)"
  unfolding scrape_organization_dashboard_def
  by (intro emits_try_except emits_bind emits_do_call emits_sleep emits_ret emits_lift; simp)

lemma emits_dispatch: "emits (session_call d) (dispatch w d a p)"
proof -
  have l: "emits (session_call d) (login_action w d u q)" for u q
    by (rule emits_mono[OF emits_login_action]) (simp add: session_call_def)
  have s: "emits (session_call d) (scrape_organization_dashboard w d)"
    by (rule emits_mono[OF emits_scrape]) (simp add: session_call_def)
  show ?thesis
    unfolding dispatch_def
    by (intro emits_bind emits_lift)
       (auto split: pyval.splits intro!: emits_bind emits_ret emits_raise l s)
qed

lemma session_call_not_Quit: "session_call d c \<Longrightarrow> c \<noteq> Quit d'"
  by (cases c) (auto simp: session_call_def)

lemma create_driver_Inr:
  assumes "create_driver w tr = (Inr d, tr1)"
  shows "d = Suc (length tr)
       \<and> tr1 = tr @ [Install, Chrome (chrome_options w), SetPageLoadTimeout d (browser_timeout + 30)]"
  using assms
  by (auto simp: create_driver_def launch_def bind_def do_call_def ret_def
      split: outcome.splits)

lemma create_driver_trace:
  "\<exists>cs. snd (create_driver w tr) = tr @ Install # cs"
  by (auto simp: create_driver_def launch_def bind_def do_call_def ret_def
      split: outcome.splits)

lemma quit_quietly:
  "try_except (bind (do_call w (Quit d)) (\<lambda>u. ret ())) (\<lambda>e. ret ()) t = (Inr (), t @ [Quit d])"
  by (simp add: try_except_def bind_def do_call_def ret_def split: outcome.splits)

lemma run_action_sync_created:
  assumes "create_driver w tr = (Inr d, tr1)"
  shows "run_action_sync w a p tr =
     (fst (guarded w d a p tr1), snd (guarded w d a p tr1) @ [Quit d])"
  using assms
  by (simp add: run_action_sync_def try_finally_def quit_quietly guarded_def split: prod.splits)

lemma run_action_sync_failed:
  assumes "create_driver w tr = (Inl e, tr1)"
  shows "run_action_sync w a p tr = (Inr (unexpected_error e), tr1)"
  using assms by (simp add: run_action_sync_def)

lemma login_action_total: "\<exists>r t. login_action w d u p tr = (Inr r, t)"
  by (auto simp: login_action_def try_except_def login_handler_result
      split: prod.splits sum.splits)

lemma scrape_total: "\<exists>r t. scrape_organization_dashboard w d tr = (Inr r, t)"
  by (auto simp: scrape_organization_dashboard_def try_except_def ret_def
      split: prod.splits sum.splits)

lemma guarded_total: "\<exists>r t. guarded w d a p tr = (Inr r, t)"
  by (auto simp: guarded_def try_except_def ret_def split: prod.splits sum.splits)

lemma emits_guarded: "emits (session_call d) (guarded w d a p)"
  unfolding guarded_def by (intro emits_try_except emits_dispatch emits_ret)

lemma status_simps:
  "dict_get (login_ok url) ''status'' = VStr ''ok''"
  "dict_get (scrape_ok x) ''status'' = VStr ''ok''"
  "dict_get (scrape_failed e) ''status'' = VStr ''error''"
  "dict_get missing_credentials ''status'' = VStr ''error''"
  "dict_get (unknown_action a) ''status'' = VStr ''error''"
  "dict_get (unexpected_error e) ''status'' = VStr ''error''"
  "dict_get missing_action ''status'' = VStr ''error''"
  "dict_get (server_error e) ''status'' = VStr ''error''"
  by (simp_all add: dict_get_def login_ok_def scrape_ok_def scrape_failed_def
      missing_credentials_def unknown_action_def unexpected_error_def missing_action_def
      server_error_def)

lemma plain_errors:
  "plain_error (scrape_failed e)" "plain_error missing_credentials"
  "plain_error (unknown_action a)" "plain_error (unexpected_error e)"
  "plain_error missing_action" "plain_error (server_error e)"
  by (simp_all add: plain_error_def scrape_failed_def missing_credentials_def
      unknown_action_def unexpected_error_def missing_action_def server_error_def)

lemma scrape_results:
  assumes "scrape_organization_dashboard w d tr = (Inr r, t)"
  shows "(\<exists>x. r = scrape_ok x) \<or> plain_error r"
  using assms
  by (auto simp: scrape_organization_dashboard_def try_except_def ret_def bind_def lift_def
      do_call_def sleep_def plain_errors split: prod.splits sum.splits outcome.splits)

lemma login_results:
  assumes "login_action w d u p tr = (Inr r, t)"
  shows "(\<exists>url. r = login_ok url)
       \<or> (\<exists>e path mid. r = login_failed e path \<and> t = tr @ mid @ [SaveScreenshot d path])"
proof -
  from login_action_cases[OF assms]
  consider "login_steps w d u p tr = (Inr r, t)"
    | e t0 where "login_steps w d u p tr = (Inl e, t0)"
        "r = login_failed e (screenshot_path (clock w t0))"
        "t = t0 @ [SaveScreenshot d (screenshot_path (clock w t0))]"
    by auto
  then show ?thesis
  proof cases
    case 1
    from login_steps_Inr[OF 1] show ?thesis by blast
  next
    case 2
    have "emits (login_call d) (login_steps w d u p)"
      unfolding login_steps_def click_or_script_def
      by (intro emits_bind emits_do_call emits_sleep emits_ret emits_try_except emits_until
          emits_left_login; simp)
    from emitsD[OF this 2(1)] obtain cs where "t0 = tr @ cs" by blast
    with 2 show ?thesis by auto
  qed
qed

text \<open>The results the runner can hand back once a driver exists.\<close>

lemma dispatch_results:
  assumes "dispatch w d a p tr = (Inr r, t)"
  shows "(\<exists>url. r = login_ok url) \<or> (\<exists>x. r = scrape_ok x) \<or> plain_error r
       \<or> (\<exists>e path mid. r = login_failed e path \<and> t = tr @ mid @ [SaveScreenshot d path])"
proof -
  from assms obtain u q where
    body: "(case a of
         VStr s \<Rightarrow>
           if lower s = ''login'' then
             if \<not> truthy u \<or> \<not> truthy q then ret missing_credentials
             else login_action w d u q
           else if lower s = ''scrape_dashboard'' then
             if \<not> truthy u \<or> \<not> truthy q then ret missing_credentials
             else bind (login_action w d u q) (\<lambda>login_resp.
                    if dict_get login_resp ''status'' \<noteq> VStr ''ok'' then ret login_resp
                    else scrape_organization_dashboard w d)
           else ret (unknown_action s)
       | _ \<Rightarrow> raise (attribute_error a ''lower'')) tr = (Inr r, t)"
    unfolding dispatch_def
    by (auto simp: lift_def elim!: bind_InrE)
  show ?thesis
  proof (cases a)
    case (VStr s)
    consider "r = missing_credentials" | "r = unknown_action s"
      | "login_action w d u q tr = (Inr r, t)"
      | lr t1 where "login_action w d u q tr = (Inr lr, t1)"
          "dict_get lr ''status'' = VStr ''ok''"
          "scrape_organization_dashboard w d t1 = (Inr r, t)"
      using body VStr
      by (auto simp: ret_def split: if_splits elim!: bind_InrE)
    then show ?thesis
    proof cases
      case 3 from login_results[OF 3] show ?thesis by blast
    next
      case 4 from scrape_results[OF 4(3)] show ?thesis by blast
    qed (auto simp: plain_errors)
  qed (use body in \<open>auto simp: raise_def\<close>)
qed

lemma guarded_results:
  assumes "guarded w d a p tr = (Inr r, t)"
  shows "(\<exists>url. r = login_ok url) \<or> (\<exists>x. r = scrape_ok x) \<or> plain_error r
       \<or> (\<exists>e path mid. r = login_failed e path \<and> t = tr @ mid @ [SaveScreenshot d path])"
proof (cases "dispatch w d a (payload_or_empty p) tr")
  case (Pair x t')
  show ?thesis
  proof (cases x)
    case (Inl e)
    with Pair assms have "r = unexpected_error e"
      by (simp add: guarded_def try_except_def ret_def)
    then show ?thesis by (simp add: plain_errors)
  next
    case (Inr y)
    with Pair assms have "dispatch w d a (payload_or_empty p) tr = (Inr r, t)"
      by (simp add: guarded_def try_except_def)
    then show ?thesis by (rule dispatch_results)
  qed
qed

lemma run_action_sync_results:
  assumes "run_action_sync w a p tr = (Inr r, t)"
  shows "(\<exists>url. r = login_ok url) \<or> (\<exists>x. r = scrape_ok x) \<or> plain_error r
       \<or> (\<exists>e path mid d. r = login_failed e path
             \<and> t = tr @ mid @ [SaveScreenshot d path, Quit d])"
proof (cases "create_driver w tr")
  case (Pair x tr1)
  show ?thesis
  proof (cases x)
    case (Inl e)
    with Pair assms have "r = unexpected_error e" by (simp add: run_action_sync_failed)
    then show ?thesis by (simp add: plain_errors)
  next
    case (Inr d)
    with Pair have cd: "create_driver w tr = (Inr d, tr1)" by simp
    from create_driver_Inr[OF cd] obtain cs where tr1: "tr1 = tr @ cs" by blast
    obtain g t' where g: "guarded w d a p tr1 = (g, t')" by (cases "guarded w d a p tr1")
    with run_action_sync_created[OF cd, of a p] assms
    have "guarded w d a p tr1 = (Inr r, t')" and t: "t = t' @ [Quit d]" by auto
    from guarded_results[OF this(1)] tr1 t show ?thesis by auto
  qed
qed

section \<open>Small facts for the claims\<close>

lemma payload_or_empty_dict: "payload_or_empty (VDict kv) = VDict kv"
  by (cases kv) (simp_all add: payload_or_empty_def)

lemma py_get_dict: "py_get (VDict kv) k VNone = Inr (dict_get kv k)"
  by (simp add: dict_get_def)


lemma login_call_not_dashboard: "login_call d c \<Longrightarrow> c \<noteq> Get d dashboard_url"
  by (cases c) (auto simp: login_url_def dashboard_url_def)

lemma calm_create:
  "create_driver calm_world [] =
     (Inr 1, [Install, Chrome (chrome_options calm_world), SetPageLoadTimeout 1 (browser_timeout + 30)])"
  by (simp add: create_driver_def launch_def bind_def do_call_def ret_def calm_world_def)

lemma calm_login:
  "login_action calm_world d u p tr =
     (Inr (login_ok home_url),
      tr @ login_order d u p [] [] @ [CurrentUrl d, CurrentUrl d, CurrentUrl d])"
  by (simp add: login_action_def login_steps_def bind_def ret_def try_except_def do_call_def
      sleep_def until_def click_or_script_def left_login_def
      calm_world_def home_url_def lower_def lower_char_def login_order_def)

lemma lower_samples:
  "lower ''Scrape_Dashboard'' = ''scrape_dashboard''" "lower ''LOGIN'' = ''login''"
  by (simp_all add: lower_def lower_char_def)


lemma run_dict_body:
  "run w (Inr (VDict body)) tr =
     (if \<not> truthy (dict_get body ''action'') then (missing_action, tr)
      else returning (future_result w (run_action_sync w (dict_get body ''action'')
             (case map_of body ''payload'' of None \<Rightarrow> VDict [] | Some v \<Rightarrow> v))) server_error tr)"
  by (simp add: run_def returning_def bind_def lift_def ret_def dict_get_def
      split: prod.splits sum.splits)

lemma run_results:
  assumes "run w rq tr = (r, tr')"
  shows "plain_error r \<or> (\<exists>a p. run_action_sync w a p tr = (Inr r, tr'))"
proof (cases rq)
  case (Inl e)
  with assms show ?thesis
    by (auto simp: run_def returning_def bind_def lift_def plain_errors)
next
  case (Inr body)
  show ?thesis
  proof (cases body)
    case (VDict kv)
    with Inr assms show ?thesis
      by (auto simp: run_dict_body returning_def future_result_def plain_errors
          split: if_splits prod.splits sum.splits)
  qed (use Inr assms in \<open>auto simp: run_def returning_def bind_def lift_def plain_errors\<close>)
qed

lemma guarded_unknown:
  assumes "lower a \<noteq> ''login''" and "lower a \<noteq> ''scrape_dashboard''"
  shows "guarded w d (VStr a) p tr1 =
     (case py_get (payload_or_empty p) ''username'' VNone of
        Inl e \<Rightarrow> (Inr (unexpected_error e), tr1)
      | Inr u \<Rightarrow> (Inr (unknown_action a), tr1))"
  using assms
  by (cases "payload_or_empty p")
     (simp_all add: guarded_def dispatch_def try_except_def bind_def lift_def ret_def)

lemma startswith_append: "startswith p (p @ ys)"
  by (induction p) simp_all

lemma str_in_append: "str_in p (xs @ p @ ys)"
proof (induction xs)
  case Nil
  show ?case by (cases "p @ ys") (use startswith_append[of p ys] in auto)
qed simp

lemma unknown_action_names: "\<exists>m. dict_get (unknown_action a) ''message'' = VStr m \<and> str_in a m"
  using str_in_append[of a "''Unknown action '' @ [CHR 0x27]" "[CHR 0x27]"]
  by (simp add: unknown_action_def dict_get_def)

lemma no_chrome_create:
  "create_driver no_chrome_world [] = (Inl (Exn ''WebDriverException'' ''no chrome''), [Install])"
  by (simp add: create_driver_def launch_def bind_def do_call_def ret_def calm_world_def
      no_chrome_world_def)

lemma message_simps:
  "map_of (login_ok url) ''message'' = Some (VStr ''Login successful'')"
  "map_of (login_failed e p) ''message'' = Some (VStr (''Login failed: '' @ msg e))"
  "map_of (login_failed e p) ''screenshot'' = Some (VStr p)"
  "map_of (login_failed e p) ''status'' = Some (VStr ''error'')"
  "map_of (login_ok url) ''status'' = Some (VStr ''ok'')"
  "map_of (scrape_ok x) ''status'' = Some (VStr ''ok'')"
  by (simp_all add: login_ok_def login_failed_def scrape_ok_def)

lemma dead_create:
  "create_driver dead_browser_world [] =
     (Inr 1, [Install, Chrome (chrome_options dead_browser_world),
              SetPageLoadTimeout 1 (browser_timeout + 30)])"
  by (simp add: create_driver_def launch_def bind_def do_call_def ret_def calm_world_def
      dead_browser_world_def)

lemma dead_login:
  "login_action dead_browser_world d u p tr =
     (Inr (login_failed (Exn ''WebDriverException'' ''session deleted'')
             ''screenshot_1700000000.png''),
      tr @ [Get d login_url, SaveScreenshot d ''screenshot_1700000000.png''])"
  by (simp add: login_action_def login_steps_def try_except_def bind_def do_call_def
      login_handler_result dead_browser_world_def calm_world_def screenshot_path_def
      str_int_def str_nat.simps)

lemma dead_run_login:
  "run_action_sync dead_browser_world (VStr ''login'') (VDict credentials) [] =
     (Inr (login_failed (Exn ''WebDriverException'' ''session deleted'')
             ''screenshot_1700000000.png''),
      [Install, Chrome (chrome_options dead_browser_world),
       SetPageLoadTimeout 1 (browser_timeout + 30),
       Get 1 login_url, SaveScreenshot 1 ''screenshot_1700000000.png'', Quit 1])"
proof -
  have "guarded dead_browser_world d (VStr ''login'') (VDict credentials) tr =
      login_action dead_browser_world d (VStr ''u'') (VStr ''p'') tr" for tr d
    by (simp add: guarded_def dispatch_def payload_or_empty_def credentials_def bind_def lift_def
        try_except_def dead_login lower_def lower_char_def)
  then show ?thesis
    by (simp add: run_action_sync_created[OF dead_create] dead_login)
qed

lemma calm_scrape:
  "scrape_organization_dashboard calm_world d tr =
     (Inr (scrape_ok ''Dashboard''),
      tr @ [Get d dashboard_url,
            Until d browser_timeout (presence_of_element_located (ByTagName ''body'')),
            Sleep 3000, PageSource d])"
  by (simp add: scrape_organization_dashboard_def try_except_def bind_def do_call_def sleep_def
      lift_def ret_def calm_world_def)

lemma calm_run_scrape:
  "fst (run calm_world
     (Inr (VDict [(''action'', VStr ''scrape_dashboard''), (''payload'', VDict credentials)])) [])
   = scrape_ok ''Dashboard''"
proof -
  have "guarded calm_world d (VStr ''scrape_dashboard'') (VDict credentials) tr =
      (Inr (scrape_ok ''Dashboard''),
       snd (scrape_organization_dashboard calm_world d
         (tr @ login_order d (VStr ''u'') (VStr ''p'') [] []
            @ [CurrentUrl d, CurrentUrl d, CurrentUrl d])))" for tr d
    by (simp add: guarded_def dispatch_def payload_or_empty_def credentials_def bind_def lift_def
        try_except_def calm_login calm_scrape lower_def lower_char_def status_simps)
  then have f: "fst (run_action_sync calm_world (VStr ''scrape_dashboard'') (VDict credentials) [])
      = Inr (scrape_ok ''Dashboard'')"
    by (simp add: run_action_sync_created[OF calm_create])
  obtain t where t: "run_action_sync calm_world (VStr ''scrape_dashboard'') (VDict credentials) []
      = (Inr (scrape_ok ''Dashboard''), t)"
    using f by (cases "run_action_sync calm_world (VStr ''scrape_dashboard'') (VDict credentials) []")
      auto
  have "\<not> result_timeout calm_world t" by (simp add: calm_world_def)
  with t show ?thesis
    by (simp add: run_dict_body dict_get_def returning_def future_result_def)
qed

lemma get_driver_sets:
  assumes "persistent_driver s = None" and "create_driver w (calls s) = (Inr d, t)"
  shows "persistent_driver (snd (get_driver w s)) = Some d"
  using assms by (simp add: get_driver_def)


lemma stillborn_create:
  "create_driver stillborn_world [] =
     (Inl (Exn ''WebDriverException'' ''chrome not reachable''),
      [Install, Chrome (chrome_options stillborn_world),
       SetPageLoadTimeout 1 (browser_timeout + 30)])"
  by (simp add: create_driver_def launch_def bind_def do_call_def ret_def calm_world_def
      stillborn_world_def)

lemma stuck_quit_create:
  "create_driver stuck_quit_world [] =
     (Inr 1, [Install, Chrome (chrome_options stuck_quit_world),
              SetPageLoadTimeout 1 (browser_timeout + 30)])"
  by (simp add: create_driver_def launch_def bind_def do_call_def ret_def calm_world_def
      stuck_quit_world_def)

lemma guarded_fly:
  "guarded w d (VStr ''fly'') (VDict []) tr = (Inr (unknown_action ''fly''), tr)"
  by (simp add: guarded_unknown lower_def lower_char_def payload_or_empty_def)

section \<open>Where a failure result comes from\<close>

lemma emits_login_steps: "emits (login_call d) (login_steps w d u p)"
  unfolding login_steps_def click_or_script_def
  by (intro emits_bind emits_do_call emits_sleep emits_ret emits_try_except emits_until
      emits_left_login; simp)

lemma login_action_failed:
  assumes "login_steps w d u p tr = (Inl e, t0)"
  shows "login_action w d u p tr =
     (Inr (login_failed e (screenshot_path (clock w t0))),
      t0 @ [SaveScreenshot d (screenshot_path (clock w t0))])"
  using assms by (simp add: login_action_def try_except_def login_handler_result)

lemma login_origin:
  assumes "login_action w d u p tr = (Inr r, t)"
  shows "(\<exists>url. r = login_ok url) \<or> from_failed_login w tr r t d []"
proof -
  from login_action_cases[OF assms]
  consider "login_steps w d u p tr = (Inr r, t)"
    | e t0 where "login_steps w d u p tr = (Inl e, t0)"
        "r = login_failed e (screenshot_path (clock w t0))"
        "t = t0 @ [SaveScreenshot d (screenshot_path (clock w t0))]"
    by auto
  then show ?thesis
  proof cases
    case 1
    from login_steps_Inr[OF 1] show ?thesis by blast
  next
    case 2
    from emitsD[OF emits_login_steps 2(1)] obtain cs where "t0 = tr @ cs" by blast
    with 2 have "from_failed_login w tr r t d []"
      unfolding from_failed_login_def
      by (intro exI[of _ u] exI[of _ p] exI[of _ tr] exI[of _ e] exI[of _ t0] exI[of _ "[]"]
          exI[of _ cs]) simp
    then show ?thesis ..
  qed
qed

lemma dispatch_origin:
  assumes "dispatch w d a p tr = (Inr r, t)"
  shows "(\<exists>url. r = login_ok url) \<or> (\<exists>x. r = scrape_ok x) \<or> plain_error r
       \<or> from_failed_login w tr r t d []"
proof -
  from assms obtain u q where
    body: "(case a of
         VStr s \<Rightarrow>
           if lower s = ''login'' then
             if \<not> truthy u \<or> \<not> truthy q then ret missing_credentials
             else login_action w d u q
           else if lower s = ''scrape_dashboard'' then
             if \<not> truthy u \<or> \<not> truthy q then ret missing_credentials
             else bind (login_action w d u q) (\<lambda>login_resp.
                    if dict_get login_resp ''status'' \<noteq> VStr ''ok'' then ret login_resp
                    else scrape_organization_dashboard w d)
           else ret (unknown_action s)
       | _ \<Rightarrow> raise (attribute_error a ''lower'')) tr = (Inr r, t)"
    unfolding dispatch_def
    by (auto simp: lift_def elim!: bind_InrE)
  show ?thesis
  proof (cases a)
    case (VStr s)
    consider "r = missing_credentials" | "r = unknown_action s"
      | "login_action w d u q tr = (Inr r, t)"
      | lr t1 where "login_action w d u q tr = (Inr lr, t1)"
          "dict_get lr ''status'' = VStr ''ok''"
          "scrape_organization_dashboard w d t1 = (Inr r, t)"
      using body VStr
      by (auto simp: ret_def split: if_splits elim!: bind_InrE)
    then show ?thesis
    proof cases
      case 3 from login_origin[OF 3] show ?thesis by blast
    next
      case 4 from scrape_results[OF 4(3)] show ?thesis by blast
    qed (auto simp: plain_errors)
  qed (use body in \<open>auto simp: raise_def\<close>)
qed

lemma from_failed_login_extend:
  assumes "from_failed_login w (tr @ cs) r t d []"
  shows "from_failed_login w tr r (t @ [Quit d]) d [Quit d]"
  using assms unfolding from_failed_login_def
  by (metis append.assoc append_Cons append_Nil)

lemma run_action_sync_origin:
  assumes "run_action_sync w a p tr = (Inr r, t)"
  shows "(\<exists>url. r = login_ok url) \<or> (\<exists>x. r = scrape_ok x) \<or> plain_error r
       \<or> (\<exists>d. from_failed_login w tr r t d [Quit d])"
proof (cases "create_driver w tr")
  case (Pair x tr1)
  show ?thesis
  proof (cases x)
    case (Inl e)
    with Pair assms have "r = unexpected_error e" by (simp add: run_action_sync_failed)
    then show ?thesis by (simp add: plain_errors)
  next
    case (Inr d)
    with Pair have cd: "create_driver w tr = (Inr d, tr1)" by simp
    from create_driver_Inr[OF cd] obtain cs where tr1: "tr1 = tr @ cs" by blast
    obtain g t' where g: "guarded w d a p tr1 = (g, t')" by (cases "guarded w d a p tr1")
    with run_action_sync_created[OF cd, of a p] assms
    have gr: "guarded w d a p tr1 = (Inr r, t')" and t: "t = t' @ [Quit d]" by auto
    show ?thesis
    proof (cases "dispatch w d a (payload_or_empty p) tr1")
      case (Pair y t'')
      show ?thesis
      proof (cases y)
        case (Inl e)
        with Pair gr have "r = unexpected_error e"
          by (simp add: guarded_def try_except_def ret_def)
        then show ?thesis by (simp add: plain_errors)
      next
        case (Inr z)
        with Pair gr have "dispatch w d a (payload_or_empty p) tr1 = (Inr r, t')"
          by (simp add: guarded_def try_except_def)
        from dispatch_origin[OF this] tr1 t from_failed_login_extend[of w tr cs r t' d]
        show ?thesis by blast
      qed
    qed
  qed
qed

lemma run_origin:
  assumes "run w rq tr = (r, tr')"
  shows "(\<exists>url. r = login_ok url) \<or> (\<exists>x. r = scrape_ok x) \<or> plain_error r
       \<or> (\<exists>d. from_failed_login w tr r tr' d [Quit d])"
  using run_results[OF assms] run_action_sync_origin by blast

lemma run_action_sync_login_failed:
  assumes "lower a = ''login'' \<or> lower a = ''scrape_dashboard''"
    and "truthy (dict_get kv ''username'')" and "truthy (dict_get kv ''password'')"
    and "create_driver w tr = (Inr d, t1)"
    and "login_steps w d (dict_get kv ''username'') (dict_get kv ''password'') t1 = (Inl e, t0)"
  shows "run_action_sync w (VStr a) (VDict kv) tr =
     (Inr (login_failed e (screenshot_path (clock w t0))),
      t0 @ [SaveScreenshot d (screenshot_path (clock w t0)), Quit d])"
proof -
  note la = login_action_failed[OF assms(5)]
  have "dispatch w d (VStr a) (VDict kv) t1 =
     (Inr (login_failed e (screenshot_path (clock w t0))),
      t0 @ [SaveScreenshot d (screenshot_path (clock w t0))])"
    using assms(1-3) la
    by (auto simp: dispatch_def py_get_dict bind_def lift_def ret_def status_login_failed
        simp del: py_get.simps)
  then have "guarded w d (VStr a) (VDict kv) t1 =
     (Inr (login_failed e (screenshot_path (clock w t0))),
      t0 @ [SaveScreenshot d (screenshot_path (clock w t0))])"
    by (simp add: guarded_def payload_or_empty_dict try_except_def)
  with run_action_sync_created[OF assms(4), of "VStr a" "VDict kv"] show ?thesis by simp
qed

lemma dead_login_steps:
  "login_steps dead_browser_world d u p tr =
     (Inl (Exn ''WebDriverException'' ''session deleted''), tr @ [Get d login_url])"
  by (simp add: login_steps_def bind_def do_call_def dead_browser_world_def calm_world_def)

lemma dead_clock: "screenshot_path (clock dead_browser_world tr) = ''screenshot_1700000000.png''"
  by (simp add: dead_browser_world_def calm_world_def screenshot_path_def str_int_def
      str_nat.simps)

section \<open>Routing and unknown actions\<close>

lemma serve_routes:
  "fst (serve w (Request m p request_json) s) \<noteq> None \<longleftrightarrow>
     (m = POST \<and> p = ''/run'') \<or> (m = GET \<and> p = ''/ping'')"
  by (cases m) (auto simp: serve_def route_def routes_def split: prod.splits)

lemma serve_run:
  "serve w (Request POST ''/run'' request_json) s =
     (Some (fst (run w request_json (calls s))), s\<lparr>calls := snd (run w request_json (calls s))\<rparr>)"
  by (simp add: serve_def route_def routes_def split: prod.splits)

lemma serve_ping: "serve w (Request GET ''/ping'' request_json) s = (Some ping, s)"
  by (simp add: serve_def route_def routes_def)

lemma run_unknown_no_driver:
  assumes "dict_get body ''action'' = VStr a" and "a \<noteq> []"
    and "create_driver w tr = (Inl e, t)"
  shows "run w (Inr (VDict body)) tr =
     (if result_timeout w t then server_error timeout_error else unexpected_error e, t)"
  using assms
  by (simp add: run_dict_body returning_def future_result_def run_action_sync_failed)

lemma run_unknown_with_driver:
  assumes "dict_get body ''action'' = VStr a" and "a \<noteq> []"
    and "lower a \<noteq> ''login''" and "lower a \<noteq> ''scrape_dashboard''"
    and "py_get (VDict body) ''payload'' (VDict []) = Inr pl"
    and "create_driver w tr = (Inr d, t)"
  shows "run w (Inr (VDict body)) tr =
     (if result_timeout w (t @ [Quit d]) then server_error timeout_error
      else (case py_get (payload_or_empty pl) ''username'' VNone of
              Inl e \<Rightarrow> unexpected_error e
            | Inr u \<Rightarrow> unknown_action a),
      t @ [Quit d])"
proof -
  from assms(5) have pl: "(case map_of body ''payload'' of None \<Rightarrow> VDict [] | Some v \<Rightarrow> v) = pl"
    by simp
  from assms(3,4) have "guarded w d (VStr a) pl t =
     (case py_get (payload_or_empty pl) ''username'' VNone of
        Inl e \<Rightarrow> (Inr (unexpected_error e), t)
      | Inr u \<Rightarrow> (Inr (unknown_action a), t))"
    by (rule guarded_unknown)
  with run_action_sync_created[OF assms(6), of "VStr a" pl]
  have "run_action_sync w (VStr a) pl tr =
     (Inr (case py_get (payload_or_empty pl) ''username'' VNone of
              Inl e \<Rightarrow> unexpected_error e
            | Inr u \<Rightarrow> unknown_action a), t @ [Quit d])"
    by (simp split: sum.splits)
  with assms(1,2) pl show ?thesis
    by (simp add: run_dict_body returning_def future_result_def)
qed

section \<open>Browser launches\<close>

lemma create_driver_Inl:
  assumes "create_driver w tr = (Inl e, tr1)"
  shows "tr1 = tr @ [Install] \<or> tr1 = tr @ [Install, Chrome (chrome_options w)]
       \<or> tr1 = tr @ [Install, Chrome (chrome_options w),
                      SetPageLoadTimeout (Suc (length tr)) (browser_timeout + 30)]"
  using assms
  by (auto simp: create_driver_def launch_def bind_def do_call_def ret_def
      split: outcome.splits)















section \<open>Claims\<close>

text \<open>
  C5 as stated fails: the last wait reads the current URL twice in one poll. When the
  browser moves from the password page to the login page between the two reads, the wait
  ends and the login returns status "ok" with the login page as current URL, although every
  URL that was read contains one of the two patterns.
\<close>

theorem login_ok_on_login_page_counterexample:
  "login_action flip_world 1 (VStr ''u'') (VStr ''p'') [] =
     (Inr (login_ok login_url),
      login_order 1 (VStr ''u'') (VStr ''p'') [] [] @ [CurrentUrl 1, CurrentUrl 1, CurrentUrl 1])
   \<and> answer flip_world (login_order 1 (VStr ''u'') (VStr ''p'') [] [] @ [CurrentUrl 1])
       = Returns password_page
   \<and> answer flip_world (login_order 1 (VStr ''u'') (VStr ''p'') [] []
         @ [CurrentUrl 1, CurrentUrl 1]) = Returns login_url
   \<and> answer flip_world (login_order 1 (VStr ''u'') (VStr ''p'') [] []
         @ [CurrentUrl 1, CurrentUrl 1, CurrentUrl 1]) = Returns login_url
   \<and> str_in ''/app/auth/password'' (lower password_page)
   \<and> str_in ''/app/login'' (lower login_url)"
  by (simp add: login_action_def login_steps_def bind_def ret_def try_except_def do_call_def
      sleep_def until_def click_or_script_def left_login_def flip_world_def calm_world_def
      password_page_def login_url_def lower_def lower_char_def login_order_def)

text \<open>
  C5, amended. When \<^verbatim>\<open>login_action\<close> returns a result with status "ok", the calls it made
  are, in this order: open the login page, wait for the element with id "username", clear it
  and type the username, wait for the Next button by XPath, scroll to it, pause and click it
  (by script if the click raised), wait until the URL contains "/app/auth/password", wait for
  the element with id "password", clear it and type the password, wait for the Login button
  by XPath, scroll to it, pause and click it; then it polls, reading the current URL, and in
  the last poll one read gave a URL whose lower-case form does not contain "/app/login" and
  the next read gave a URL whose lower-case form does not contain "/app/auth/password";
  only then it reads the current URL once more and returns status "ok", message
  "Login successful" and the URL of that last read.
\<close>

theorem login_waits_in_order:
  assumes "login_action w d u p tr = (Inr r, tr')"
    and "dict_get r ''status'' = VStr ''ok''"
  shows "\<exists>fb1 fb2 pre u1 u2 url.
      fb1 \<in> {[], [ExecuteScript d click_script next_btn]}
    \<and> fb2 \<in> {[], [ExecuteScript d click_script login_btn]}
    \<and> set pre \<subseteq> {CurrentUrl d}
    \<and> tr' = tr @ login_order d u p fb1 fb2 @ pre @ [CurrentUrl d, CurrentUrl d, CurrentUrl d]
    \<and> answer w (tr @ login_order d u p fb1 fb2 @ pre @ [CurrentUrl d]) = Returns u1
    \<and> \<not> str_in ''/app/login'' (lower u1)
    \<and> answer w (tr @ login_order d u p fb1 fb2 @ pre @ [CurrentUrl d, CurrentUrl d]) = Returns u2
    \<and> \<not> str_in ''/app/auth/password'' (lower u2)
    \<and> answer w tr' = Returns url
    \<and> r = login_ok url"
proof -
  from login_action_cases[OF assms(1)] assms(2)
  have "login_steps w d u p tr = (Inr r, tr')"
    by (auto simp: status_login_failed)
  then show ?thesis by (rule login_steps_Inr)
qed

theorem login_waits_in_order_witness:
  "login_action calm_world 1 (VStr ''u'') (VStr ''p'') [] =
     (Inr (login_ok home_url),
      login_order 1 (VStr ''u'') (VStr ''p'') [] [] @ [CurrentUrl 1, CurrentUrl 1, CurrentUrl 1])
   \<and> dict_get (login_ok home_url) ''status'' = VStr ''ok''
   \<and> (\<exists>fb1 fb2 pre u1 u2 url.
      fb1 \<in> {[], [ExecuteScript 1 click_script next_btn]}
    \<and> fb2 \<in> {[], [ExecuteScript 1 click_script login_btn]}
    \<and> set pre \<subseteq> {CurrentUrl 1}
    \<and> login_order 1 (VStr ''u'') (VStr ''p'') [] [] @ [CurrentUrl 1, CurrentUrl 1, CurrentUrl 1]
        = [] @ login_order 1 (VStr ''u'') (VStr ''p'') fb1 fb2 @ pre
            @ [CurrentUrl 1, CurrentUrl 1, CurrentUrl 1]
    \<and> answer calm_world ([] @ login_order 1 (VStr ''u'') (VStr ''p'') fb1 fb2 @ pre
          @ [CurrentUrl 1]) = Returns u1
    \<and> \<not> str_in ''/app/login'' (lower u1)
    \<and> answer calm_world ([] @ login_order 1 (VStr ''u'') (VStr ''p'') fb1 fb2 @ pre
          @ [CurrentUrl 1, CurrentUrl 1]) = Returns u2
    \<and> \<not> str_in ''/app/auth/password'' (lower u2)
    \<and> answer calm_world (login_order 1 (VStr ''u'') (VStr ''p'') [] []
          @ [CurrentUrl 1, CurrentUrl 1, CurrentUrl 1]) = Returns url
    \<and> login_ok home_url = login_ok url)"
proof -
  have h1: "login_action calm_world 1 (VStr ''u'') (VStr ''p'') [] =
     (Inr (login_ok home_url),
      login_order 1 (VStr ''u'') (VStr ''p'') [] [] @ [CurrentUrl 1, CurrentUrl 1, CurrentUrl 1])"
    by (simp add: login_action_def login_steps_def bind_def ret_def try_except_def do_call_def
      sleep_def until_def click_or_script_def left_login_def
      calm_world_def home_url_def lower_def lower_char_def login_order_def)
  have h2: "dict_get (login_ok home_url) ''status'' = VStr ''ok''"
    by (simp add: dict_get_def login_ok_def)
  from login_waits_in_order[OF h1 h2] h1 h2 show ?thesis by simp
qed



text \<open>
  C7 as stated fails: when Chrome is launched and \<^verbatim>\<open>set_page_load_timeout\<close> then raises,
  \<^verbatim>\<open>create_driver\<close> raises, the local \<^verbatim>\<open>driver\<close> stays \<^verbatim>\<open>None\<close> and the run ends without any
  \<^verbatim>\<open>quit\<close>; and when \<^verbatim>\<open>quit\<close> itself raises, the error is swallowed and the run returns
  its result all the same.
\<close>

theorem browser_left_running_counterexample:
  "run_action_sync stillborn_world (VStr ''login'') (VDict credentials) [] =
     (Inr (unexpected_error (Exn ''WebDriverException'' ''chrome not reachable'')),
      [Install, Chrome (chrome_options stillborn_world),
       SetPageLoadTimeout 1 (browser_timeout + 30)])
   \<and> answer stillborn_world [Install, Chrome (chrome_options stillborn_world)] = Returns []
   \<and> run_action_sync stuck_quit_world (VStr ''fly'') (VDict []) [] =
     (Inr (unknown_action ''fly''),
      [Install, Chrome (chrome_options stuck_quit_world),
       SetPageLoadTimeout 1 (browser_timeout + 30), Quit 1])
   \<and> answer stuck_quit_world
        [Install, Chrome (chrome_options stuck_quit_world),
         SetPageLoadTimeout 1 (browser_timeout + 30), Quit 1]
       = Raises (Exn ''WebDriverException'' ''chrome not reachable'')"
  by (simp add: run_action_sync_failed[OF stillborn_create]
      run_action_sync_created[OF stuck_quit_create] guarded_fly)
     (simp add: stillborn_world_def stuck_quit_world_def calm_world_def)

text \<open>
  C7, amended. Whenever \<^verbatim>\<open>create_driver\<close> returned a driver, \<^verbatim>\<open>run_action_sync\<close> ends, for
  every action and payload and whatever happens in between, with a call of \<^verbatim>\<open>quit\<close> on
  that driver, whatever that call does (an error of \<^verbatim>\<open>quit\<close> is swallowed): it is the last
  call of the trace, nothing before it in this run quits a driver, and the run returns its
  result. When \<^verbatim>\<open>create_driver\<close> raised, also after Chrome was launched, the run calls
  \<^verbatim>\<open>quit\<close> on nothing and returns the "Unexpected error" result.
\<close>

theorem driver_quit_on_every_exit:
  "(create_driver w tr = (Inr d, tr1) \<longrightarrow>
      (\<exists>r mid. run_action_sync w action payload tr = (Inr r, tr1 @ mid @ [Quit d])
         \<and> list_all (\<lambda>c. \<forall>d'. c \<noteq> Quit d') mid))
   \<and> (create_driver w tr = (Inl e, tr1) \<longrightarrow>
        run_action_sync w action payload tr = (Inr (unexpected_error e), tr1)
      \<and> (\<exists>cs. tr1 = tr @ cs \<and> list_all (\<lambda>c. \<forall>d'. c \<noteq> Quit d') cs))"
proof (intro conjI impI)
  assume cd: "create_driver w tr = (Inr d, tr1)"
  from guarded_total[of w d action payload tr1]
  obtain r t where g: "guarded w d action payload tr1 = (Inr r, t)" by blast
  from emitsD[OF emits_guarded g] obtain mid where
    mid: "t = tr1 @ mid" "list_all (session_call d) mid" .
  from mid(2) have "list_all (\<lambda>c. \<forall>d'. c \<noteq> Quit d') mid"
    by (auto simp: list_all_iff dest: session_call_not_Quit)
  with run_action_sync_created[OF cd, of action payload] g mid(1)
  show "\<exists>r mid. run_action_sync w action payload tr = (Inr r, tr1 @ mid @ [Quit d])
         \<and> list_all (\<lambda>c. \<forall>d'. c \<noteq> Quit d') mid"
    by auto
next
  assume cd: "create_driver w tr = (Inl e, tr1)"
  then show "run_action_sync w action payload tr = (Inr (unexpected_error e), tr1)"
    by (rule run_action_sync_failed)
  from create_driver_Inl[OF cd]
  show "\<exists>cs. tr1 = tr @ cs \<and> list_all (\<lambda>c. \<forall>d'. c \<noteq> Quit d') cs"
    by auto
qed

theorem driver_quit_on_every_exit_witness:
  "create_driver calm_world [] =
     (Inr 1, [Install, Chrome (chrome_options calm_world), SetPageLoadTimeout 1 (browser_timeout + 30)])
   \<and> (\<exists>r mid. run_action_sync calm_world (VStr ''login'') (VDict credentials) [] =
         (Inr r, [Install, Chrome (chrome_options calm_world),
                  SetPageLoadTimeout 1 (browser_timeout + 30)] @ mid @ [Quit 1])
       \<and> list_all (\<lambda>c. \<forall>d'. c \<noteq> Quit d') mid)
   \<and> create_driver stillborn_world [] =
       (Inl (Exn ''WebDriverException'' ''chrome not reachable''),
        [Install, Chrome (chrome_options stillborn_world),
         SetPageLoadTimeout 1 (browser_timeout + 30)])
   \<and> run_action_sync stillborn_world (VStr ''login'') (VDict credentials) [] =
       (Inr (unexpected_error (Exn ''WebDriverException'' ''chrome not reachable'')),
        [Install, Chrome (chrome_options stillborn_world),
         SetPageLoadTimeout 1 (browser_timeout + 30)])"
proof -
  note a = driver_quit_on_every_exit[where w = calm_world and tr = "[]"
      and action = "VStr ''login''" and payload = "VDict credentials",
      THEN conjunct1, rule_format, OF calm_create]
  note b = driver_quit_on_every_exit[where w = stillborn_world and tr = "[]"
      and action = "VStr ''login''" and payload = "VDict credentials",
      THEN conjunct2, rule_format, OF stillborn_create, THEN conjunct1]
  from a b calm_create stillborn_create show ?thesis by blast
qed

text \<open>
  C1. For an action that lower-cases to "scrape_dashboard", with a truthy username and
  password, once the driver exists the runner performs the login first. If the login result
  has status "ok", the run is the scrape started from the trace the login left, followed by
  quit. If it has any other status, the runner returns the login result unchanged, and no
  call of the run opens the dashboard page.
\<close>

theorem scrape_only_after_login_ok:
  assumes "lower a = ''scrape_dashboard''"
    and "truthy (dict_get kv ''username'')" and "truthy (dict_get kv ''password'')"
    and "create_driver w tr = (Inr d, tr1)"
    and "login_action w d (dict_get kv ''username'') (dict_get kv ''password'') tr1 = (Inr lr, tr2)"
  shows "(dict_get lr ''status'' = VStr ''ok'' \<longrightarrow>
            run_action_sync w (VStr a) (VDict kv) tr =
              (fst (scrape_organization_dashboard w d tr2),
               snd (scrape_organization_dashboard w d tr2) @ [Quit d]))
       \<and> (dict_get lr ''status'' \<noteq> VStr ''ok'' \<longrightarrow>
            run_action_sync w (VStr a) (VDict kv) tr = (Inr lr, tr2 @ [Quit d])
            \<and> (\<exists>cs. tr2 @ [Quit d] = tr @ cs \<and> Get d dashboard_url \<notin> set cs))"
proof -
  have disp: "dispatch w d (VStr a) (VDict kv) tr1 =
      (if dict_get lr ''status'' \<noteq> VStr ''ok'' then (Inr lr, tr2)
       else scrape_organization_dashboard w d tr2)"
    using assms
    by (simp add: dispatch_def py_get_dict bind_def lift_def ret_def del: py_get.simps)
  from scrape_total[of w d tr2] obtain sr st where
    sc: "scrape_organization_dashboard w d tr2 = (Inr sr, st)" by blast
  have g: "guarded w d (VStr a) (VDict kv) tr1 =
      (if dict_get lr ''status'' \<noteq> VStr ''ok'' then (Inr lr, tr2)
       else scrape_organization_dashboard w d tr2)"
    using disp sc by (simp add: guarded_def payload_or_empty_dict try_except_def)
  from create_driver_Inr[OF assms(4)] obtain c1 where c1: "tr1 = tr @ c1"
    "Get d dashboard_url \<notin> set c1" by auto
  from emitsD[OF emits_login_action assms(5)] obtain c2 where c2: "tr2 = tr1 @ c2"
    "list_all (login_call d) c2" .
  from c2(2) have "Get d dashboard_url \<notin> set c2"
    by (auto simp: list_all_iff dest: login_call_not_dashboard)
  with c1 c2 have "\<exists>cs. tr2 @ [Quit d] = tr @ cs \<and> Get d dashboard_url \<notin> set cs"
    by (intro exI[of _ "c1 @ c2 @ [Quit d]"]) auto
  with run_action_sync_created[OF assms(4), of "VStr a" "VDict kv"] g show ?thesis by auto
qed

theorem scrape_only_after_login_ok_witness:
  "lower ''Scrape_Dashboard'' = ''scrape_dashboard''
   \<and> truthy (dict_get credentials ''username'') \<and> truthy (dict_get credentials ''password'')
   \<and> create_driver calm_world [] =
       (Inr 1, [Install, Chrome (chrome_options calm_world),
                SetPageLoadTimeout 1 (browser_timeout + 30)])
   \<and> dict_get (login_ok home_url) ''status'' = VStr ''ok''
   \<and> (\<exists>tr2. login_action calm_world 1 (dict_get credentials ''username'')
                (dict_get credentials ''password'')
                [Install, Chrome (chrome_options calm_world),
                 SetPageLoadTimeout 1 (browser_timeout + 30)] = (Inr (login_ok home_url), tr2)
        \<and> run_action_sync calm_world (VStr ''Scrape_Dashboard'') (VDict credentials) [] =
            (fst (scrape_organization_dashboard calm_world 1 tr2),
             snd (scrape_organization_dashboard calm_world 1 tr2) @ [Quit 1]))"
proof -
  have t: "truthy (dict_get credentials ''username'')" "truthy (dict_get credentials ''password'')"
    by (simp_all add: dict_get_def credentials_def)
  have s: "dict_get (login_ok home_url) ''status'' = VStr ''ok''" by (simp add: status_simps)
  from scrape_only_after_login_ok[OF lower_samples(1) t calm_create calm_login] s
    lower_samples(1) t calm_create calm_login
  show ?thesis by simp
qed



text \<open>
  C4 as stated fails twice: the response of GET /ping has no "status" field, and the
  response of a successful scrape has no "message" field.
\<close>

theorem response_keys_counterexample:
  "map_of ping ''status'' = None
   \<and> fst (run calm_world
       (Inr (VDict [(''action'', VStr ''scrape_dashboard''), (''payload'', VDict credentials)])) [])
     = scrape_ok ''Dashboard''
   \<and> map_of (scrape_ok ''Dashboard'') ''message'' = None"
  by (simp add: calm_run_scrape) (simp add: ping_def scrape_ok_def)

text \<open>
  C4, amended. Every response of POST /run has a "status" field, a string; it has a
  "message" field, a string, unless it is the result of a successful scrape, which has
  exactly the fields status, dashboard_url and text. The response of GET /ping has a
  "message" field and no "status" field.
\<close>

theorem response_keys:
  "(\<exists>st. map_of (fst (run w request_json tr)) ''status'' = Some (VStr st))
   \<and> ((\<exists>m. map_of (fst (run w request_json tr)) ''message'' = Some (VStr m))
      \<or> (\<exists>page_text. fst (run w request_json tr) =
            [(''status'', VStr ''ok''), (''dashboard_url'', VStr dashboard_url),
             (''text'', VStr page_text)]))
   \<and> map_of ping ''message'' = Some (VStr ''ping - server up'')
   \<and> map_of ping ''status'' = None"
proof -
  obtain r tr' where r: "run w request_json tr = (r, tr')" by (cases "run w request_json tr")
  from run_results[OF r] run_action_sync_results
  consider "plain_error r" | url where "r = login_ok url" | x where "r = scrape_ok x"
    | e path where "r = login_failed e path"
    by blast
  then have "(\<exists>st. map_of r ''status'' = Some (VStr st))
   \<and> ((\<exists>m. map_of r ''message'' = Some (VStr m))
      \<or> (\<exists>page_text. r = [(''status'', VStr ''ok''), (''dashboard_url'', VStr dashboard_url),
             (''text'', VStr page_text)]))"
    by cases (auto simp: plain_error_def message_simps scrape_ok_def)
  with r show ?thesis by (simp add: ping_def)
qed

theorem response_keys_witness:
  "(\<exists>st. map_of (fst (run calm_world (Inr (VDict [])) [])) ''status'' = Some (VStr st))
   \<and> map_of ping ''message'' = Some (VStr ''ping - server up'')"
  using response_keys[of calm_world "Inr (VDict [])" "[]"] by simp

text \<open>
  C3 as stated fails: when the browser died, the login fails, \<^verbatim>\<open>save_screenshot\<close> raises
  too and is swallowed, so no screenshot is saved, and still the result carries the path
  under the key "screenshot".
\<close>

theorem screenshot_not_saved_counterexample:
  "run_action_sync dead_browser_world (VStr ''login'') (VDict credentials) [] =
     (Inr (login_failed (Exn ''WebDriverException'' ''session deleted'')
             ''screenshot_1700000000.png''),
      [Install, Chrome (chrome_options dead_browser_world),
       SetPageLoadTimeout 1 (browser_timeout + 30),
       Get 1 login_url, SaveScreenshot 1 ''screenshot_1700000000.png'', Quit 1])
   \<and> answer dead_browser_world
        [Install, Chrome (chrome_options dead_browser_world),
         SetPageLoadTimeout 1 (browser_timeout + 30),
         Get 1 login_url, SaveScreenshot 1 ''screenshot_1700000000.png'']
       = Raises (Exn ''WebDriverException'' ''session deleted'')
   \<and> map_of (login_failed (Exn ''WebDriverException'' ''session deleted'')
                ''screenshot_1700000000.png'') ''screenshot''
       = Some (VStr ''screenshot_1700000000.png'')"
  by (simp add: dead_run_login message_simps) (simp add: dead_browser_world_def calm_world_def)

text \<open>
  C3, amended. Every response of \<^verbatim>\<open>run\<close> whose status is not "ok" has status "error" and
  a message that is a string. It is either a dictionary with exactly the keys status and
  message, or the result of a login whose steps raised: then it is exactly status "error",
  the message "Login failed: " followed by the text of the error, and the key "screenshot",
  whose value is the path handed to \<^verbatim>\<open>save_screenshot\<close> in the last call before the driver
  was quit, whether or not that call saved anything. Conversely, whenever the steps of the
  login raise, \<^verbatim>\<open>login_action\<close> calls \<^verbatim>\<open>save_screenshot\<close> once, right after the failed step, and
  returns that three-key dictionary, and so does \<^verbatim>\<open>run_action_sync\<close> for the actions "login"
  and "scrape_dashboard" with credentials present, after quitting the driver.
\<close>

theorem failure_results_shape:
  "(run w request_json tr = (r, tr') \<and> dict_get r ''status'' \<noteq> VStr ''ok'' \<longrightarrow>
       dict_get r ''status'' = VStr ''error''
     \<and> (\<exists>m. dict_get r ''message'' = VStr m)
     \<and> ((\<exists>m. r = [(''status'', VStr ''error''), (''message'', VStr m)])
        \<or> (\<exists>d u p t1 e t0 pre mid.
              t1 = tr @ pre \<and> login_steps w d u p t1 = (Inl e, t0) \<and> t0 = t1 @ mid
              \<and> r = [(''status'', VStr ''error''), (''message'', VStr (''Login failed: '' @ msg e)),
                     (''screenshot'', VStr (screenshot_path (clock w t0)))]
              \<and> tr' = t0 @ [SaveScreenshot d (screenshot_path (clock w t0)), Quit d])))
   \<and> (login_steps w dL uL pL tL = (Inl eL, tM) \<longrightarrow>
        login_action w dL uL pL tL =
          (Inr [(''status'', VStr ''error''), (''message'', VStr (''Login failed: '' @ msg eL)),
                (''screenshot'', VStr (screenshot_path (clock w tM)))],
           tM @ [SaveScreenshot dL (screenshot_path (clock w tM))]))
   \<and> ((lower a = ''login'' \<or> lower a = ''scrape_dashboard'')
        \<and> truthy (dict_get kv ''username'') \<and> truthy (dict_get kv ''password'')
        \<and> create_driver w trA = (Inr dA, tA)
        \<and> login_steps w dA (dict_get kv ''username'') (dict_get kv ''password'') tA = (Inl eA, tB)
        \<longrightarrow>
        run_action_sync w (VStr a) (VDict kv) trA =
          (Inr [(''status'', VStr ''error''), (''message'', VStr (''Login failed: '' @ msg eA)),
                (''screenshot'', VStr (screenshot_path (clock w tB)))],
           tB @ [SaveScreenshot dA (screenshot_path (clock w tB)), Quit dA]))"
proof (intro conjI impI)
  assume h: "run w request_json tr = (r, tr') \<and> dict_get r ''status'' \<noteq> VStr ''ok''"
  with run_origin[of w request_json tr r tr']
  consider "plain_error r" | d where "from_failed_login w tr r tr' d [Quit d]"
    by (auto simp: status_simps)
  then have shape: "(\<exists>m. r = [(''status'', VStr ''error''), (''message'', VStr m)])
        \<or> (\<exists>d u p t1 e t0 pre mid.
              t1 = tr @ pre \<and> login_steps w d u p t1 = (Inl e, t0) \<and> t0 = t1 @ mid
              \<and> r = [(''status'', VStr ''error''), (''message'', VStr (''Login failed: '' @ msg e)),
                     (''screenshot'', VStr (screenshot_path (clock w t0)))]
              \<and> tr' = t0 @ [SaveScreenshot d (screenshot_path (clock w t0)), Quit d])"
  proof cases
    case 1 then show ?thesis by (simp add: plain_error_def)
  next
    case 2
    then show ?thesis unfolding from_failed_login_def login_failed_def by blast
  qed
  then show "(\<exists>m. r = [(''status'', VStr ''error''), (''message'', VStr m)])
        \<or> (\<exists>d u p t1 e t0 pre mid.
              t1 = tr @ pre \<and> login_steps w d u p t1 = (Inl e, t0) \<and> t0 = t1 @ mid
              \<and> r = [(''status'', VStr ''error''), (''message'', VStr (''Login failed: '' @ msg e)),
                     (''screenshot'', VStr (screenshot_path (clock w t0)))]
              \<and> tr' = t0 @ [SaveScreenshot d (screenshot_path (clock w t0)), Quit d])" .
  from shape show "dict_get r ''status'' = VStr ''error''" by (auto simp: dict_get_def)
  from shape show "\<exists>m. dict_get r ''message'' = VStr m" by (auto simp: dict_get_def)
next
  assume "login_steps w dL uL pL tL = (Inl eL, tM)"
  from login_action_failed[OF this]
  show "login_action w dL uL pL tL =
          (Inr [(''status'', VStr ''error''), (''message'', VStr (''Login failed: '' @ msg eL)),
                (''screenshot'', VStr (screenshot_path (clock w tM)))],
           tM @ [SaveScreenshot dL (screenshot_path (clock w tM))])"
    by (simp add: login_failed_def)
next
  assume h: "(lower a = ''login'' \<or> lower a = ''scrape_dashboard'')
        \<and> truthy (dict_get kv ''username'') \<and> truthy (dict_get kv ''password'')
        \<and> create_driver w trA = (Inr dA, tA)
        \<and> login_steps w dA (dict_get kv ''username'') (dict_get kv ''password'') tA = (Inl eA, tB)"
  then have "run_action_sync w (VStr a) (VDict kv) trA =
     (Inr (login_failed eA (screenshot_path (clock w tB))),
      tB @ [SaveScreenshot dA (screenshot_path (clock w tB)), Quit dA])"
    using run_action_sync_login_failed[of a kv w trA dA tA eA tB] by blast
  then show "run_action_sync w (VStr a) (VDict kv) trA =
          (Inr [(''status'', VStr ''error''), (''message'', VStr (''Login failed: '' @ msg eA)),
                (''screenshot'', VStr (screenshot_path (clock w tB)))],
           tB @ [SaveScreenshot dA (screenshot_path (clock w tB)), Quit dA])"
    by (simp add: login_failed_def)
qed

theorem failure_results_shape_witness:
  "run dead_browser_world
     (Inr (VDict [(''action'', VStr ''login''), (''payload'', VDict credentials)])) [] =
     (login_failed (Exn ''WebDriverException'' ''session deleted'') ''screenshot_1700000000.png'',
      [Install, Chrome (chrome_options dead_browser_world),
       SetPageLoadTimeout 1 (browser_timeout + 30),
       Get 1 login_url, SaveScreenshot 1 ''screenshot_1700000000.png'', Quit 1])
   \<and> dict_get (login_failed (Exn ''WebDriverException'' ''session deleted'')
         ''screenshot_1700000000.png'') ''status'' \<noteq> VStr ''ok''
   \<and> dict_get (login_failed (Exn ''WebDriverException'' ''session deleted'')
         ''screenshot_1700000000.png'') ''status'' = VStr ''error''
   \<and> login_steps dead_browser_world 1 (VStr ''u'') (VStr ''p'') [] =
         (Inl (Exn ''WebDriverException'' ''session deleted''), [Get 1 login_url])
   \<and> login_action dead_browser_world 1 (VStr ''u'') (VStr ''p'') [] =
         (Inr [(''status'', VStr ''error''), (''message'', VStr ''Login failed: session deleted''),
               (''screenshot'', VStr ''screenshot_1700000000.png'')],
          [Get 1 login_url, SaveScreenshot 1 ''screenshot_1700000000.png''])
   \<and> lower ''login'' = ''login''
   \<and> truthy (dict_get credentials ''username'') \<and> truthy (dict_get credentials ''password'')
   \<and> create_driver dead_browser_world [] =
         (Inr 1, [Install, Chrome (chrome_options dead_browser_world),
                  SetPageLoadTimeout 1 (browser_timeout + 30)])
   \<and> run_action_sync dead_browser_world (VStr ''login'') (VDict credentials) [] =
         (Inr [(''status'', VStr ''error''), (''message'', VStr ''Login failed: session deleted''),
               (''screenshot'', VStr ''screenshot_1700000000.png'')],
          [Install, Chrome (chrome_options dead_browser_world),
           SetPageLoadTimeout 1 (browser_timeout + 30),
           Get 1 login_url, SaveScreenshot 1 ''screenshot_1700000000.png'', Quit 1])"
proof -
  let ?E = "Exn ''WebDriverException'' ''session deleted''"
  let ?T = "[Install, Chrome (chrome_options dead_browser_world),
             SetPageLoadTimeout 1 (browser_timeout + 30)]"
  have r: "run dead_browser_world
     (Inr (VDict [(''action'', VStr ''login''), (''payload'', VDict credentials)])) [] =
     (login_failed ?E ''screenshot_1700000000.png'',
      ?T @ [Get 1 login_url, SaveScreenshot 1 ''screenshot_1700000000.png'', Quit 1])"
    by (simp add: run_dict_body dict_get_def returning_def future_result_def dead_run_login)
       (simp add: dead_browser_world_def calm_world_def)
  have n: "dict_get (login_failed ?E ''screenshot_1700000000.png'') ''status'' \<noteq> VStr ''ok''"
    by (simp add: status_login_failed)
  have l: "lower ''login'' = ''login''" by (simp add: lower_def lower_char_def)
  have t: "truthy (dict_get credentials ''username'')" "truthy (dict_get credentials ''password'')"
    by (simp_all add: dict_get_def credentials_def)
  have c: "dict_get credentials ''username'' = VStr ''u''"
    "dict_get credentials ''password'' = VStr ''p''"
    by (simp_all add: dict_get_def credentials_def)
  note inst = failure_results_shape[where w = dead_browser_world
      and request_json = "Inr (VDict [(''action'', VStr ''login''), (''payload'', VDict credentials)])"
      and tr = "[]" and r = "login_failed ?E ''screenshot_1700000000.png''"
      and tr' = "?T @ [Get 1 login_url, SaveScreenshot 1 ''screenshot_1700000000.png'', Quit 1]"
      and dL = 1 and uL = "VStr ''u''" and pL = "VStr ''p''" and tL = "[]" and eL = ?E
      and tM = "[Get 1 login_url]"
      and a = "''login''" and kv = credentials and trA = "[]" and dA = 1 and tA = ?T
      and eA = ?E and tB = "?T @ [Get 1 login_url]"]
  from inst r n l t dead_create dead_login_steps[of 1 "VStr ''u''" "VStr ''p''" "[]"]
    dead_login_steps[of 1 "VStr ''u''" "VStr ''p''" ?T]
  show ?thesis by (simp add: dead_clock c)
qed

text \<open>
  C2 as stated fails: on a host where the browser cannot start, the unknown action "fly"
  gets the message of the failed driver construction, which does not name the action.
\<close>

theorem unknown_action_message_counterexample:
  "run no_chrome_world (Inr (VDict [(''action'', VStr ''fly'')])) [] =
     ([(''status'', VStr ''error''), (''message'', VStr ''Unexpected error: no chrome'')],
      [Install])
   \<and> \<not> str_in ''fly'' ''Unexpected error: no chrome''"
proof -
  have "run no_chrome_world (Inr (VDict [(''action'', VStr ''fly'')])) [] =
      (if result_timeout no_chrome_world [Install] then server_error timeout_error
       else unexpected_error (Exn ''WebDriverException'' ''no chrome''), [Install])"
    by (simp add: run_dict_body dict_get_def returning_def future_result_def
        run_action_sync_failed[OF no_chrome_create])
  then show ?thesis
    by (simp add: unexpected_error_def no_chrome_world_def calm_world_def)
qed

text \<open>
  C2, amended. The HTTP surface is exactly POST /run, which answers with the result of
  \<^verbatim>\<open>run\<close> on the JSON body, and GET /ping: no other method and path is served. For a JSON
  object as body, a missing or falsy action yields exactly the "Missing 'action'" error
  without touching the browser. An action string that lower-cases to neither "login" nor
  "scrape_dashboard" always yields a result with status "error". When the driver could be
  created, the driver is quit and the message is "Unknown action '<action>'", which names
  the action, unless reading the username from a payload that is truthy and not a
  dictionary raised, in which case the result is the "Unexpected error" of that error. When
  driver creation raised, the result is the "Unexpected error" of that error. In both cases
  a result that was not ready within the timeout is replaced by the "Unexpected server
  error" of the timeout.
\<close>

theorem run_dispatches_on_action:
  "(fst (serve w (Request m p request_json) s) \<noteq> None \<longleftrightarrow>
      (m = POST \<and> p = ''/run'') \<or> (m = GET \<and> p = ''/ping''))
   \<and> serve w (Request POST ''/run'' request_json) s =
       (Some (fst (run w request_json (calls s))),
        s\<lparr>calls := snd (run w request_json (calls s))\<rparr>)
   \<and> serve w (Request GET ''/ping'' request_json) s = (Some ping, s)
   \<and> (\<not> truthy (dict_get body ''action'') \<longrightarrow> run w (Inr (VDict body)) tr = (missing_action, tr))
   \<and> (dict_get body ''action'' = VStr a \<and> a \<noteq> [] \<and> lower a \<noteq> ''login''
        \<and> lower a \<noteq> ''scrape_dashboard''
        \<and> py_get (VDict body) ''payload'' (VDict []) = Inr pl \<longrightarrow>
         dict_get (fst (run w (Inr (VDict body)) tr)) ''status'' = VStr ''error''
       \<and> (\<forall>e t. create_driver w tr = (Inl e, t) \<longrightarrow>
             run w (Inr (VDict body)) tr =
               (if result_timeout w t then server_error timeout_error
                else unexpected_error e, t))
       \<and> (\<forall>d t. create_driver w tr = (Inr d, t) \<longrightarrow>
             run w (Inr (VDict body)) tr =
               (if result_timeout w (t @ [Quit d]) then server_error timeout_error
                else (case py_get (payload_or_empty pl) ''username'' VNone of
                        Inl e \<Rightarrow> unexpected_error e
                      | Inr u \<Rightarrow> unknown_action a),
                t @ [Quit d]))
       \<and> (\<exists>msg. dict_get (unknown_action a) ''message'' = VStr msg \<and> str_in a msg))"
proof (intro conjI impI allI)
  show "fst (serve w (Request m p request_json) s) \<noteq> None \<longleftrightarrow>
      (m = POST \<and> p = ''/run'') \<or> (m = GET \<and> p = ''/ping'')"
    by (rule serve_routes)
  show "serve w (Request POST ''/run'' request_json) s =
       (Some (fst (run w request_json (calls s))),
        s\<lparr>calls := snd (run w request_json (calls s))\<rparr>)"
    by (rule serve_run)
  show "serve w (Request GET ''/ping'' request_json) s = (Some ping, s)"
    by (rule serve_ping)
next
  assume "\<not> truthy (dict_get body ''action'')"
  then show "run w (Inr (VDict body)) tr = (missing_action, tr)" by (simp add: run_dict_body)
next
  assume a: "dict_get body ''action'' = VStr a \<and> a \<noteq> [] \<and> lower a \<noteq> ''login''
        \<and> lower a \<noteq> ''scrape_dashboard''
        \<and> py_get (VDict body) ''payload'' (VDict []) = Inr pl"
  show "dict_get (fst (run w (Inr (VDict body)) tr)) ''status'' = VStr ''error''"
  proof (cases "create_driver w tr")
    case (Pair x t)
    show ?thesis
    proof (cases x)
      case (Inl e)
      with Pair a run_unknown_no_driver[of body a w tr e t] show ?thesis
        by (simp add: status_simps)
    next
      case (Inr d)
      with Pair a run_unknown_with_driver[of body a pl w tr d t] show ?thesis
        by (simp add: status_simps split: sum.splits)
    qed
  qed
  show "\<exists>msg. dict_get (unknown_action a) ''message'' = VStr msg \<and> str_in a msg"
    by (rule unknown_action_names)
  fix e t
  assume "create_driver w tr = (Inl e, t)"
  with a show "run w (Inr (VDict body)) tr =
               (if result_timeout w t then server_error timeout_error
                else unexpected_error e, t)"
    using run_unknown_no_driver[of body a w tr e t] by blast
next
  fix d t
  assume a: "dict_get body ''action'' = VStr a \<and> a \<noteq> [] \<and> lower a \<noteq> ''login''
        \<and> lower a \<noteq> ''scrape_dashboard''
        \<and> py_get (VDict body) ''payload'' (VDict []) = Inr pl"
    and "create_driver w tr = (Inr d, t)"
  then show "run w (Inr (VDict body)) tr =
               (if result_timeout w (t @ [Quit d]) then server_error timeout_error
                else (case py_get (payload_or_empty pl) ''username'' VNone of
                        Inl e \<Rightarrow> unexpected_error e
                      | Inr u \<Rightarrow> unknown_action a),
                t @ [Quit d])"
    using run_unknown_with_driver[of body a pl w tr d t] by blast
qed

theorem run_dispatches_on_action_witness:
  "fst (serve calm_world (Request GET ''/run'' (Inr (VDict []))) \<lparr>persistent_driver = None, calls = []\<rparr>)
     = None
   \<and> serve calm_world (Request POST ''/run'' (Inr (VDict []))) \<lparr>persistent_driver = None, calls = []\<rparr>
     = (Some missing_action, \<lparr>persistent_driver = None, calls = []\<rparr>)
   \<and> serve calm_world (Request GET ''/ping'' (Inr (VDict []))) \<lparr>persistent_driver = None, calls = []\<rparr>
     = (Some ping, \<lparr>persistent_driver = None, calls = []\<rparr>)
   \<and> run calm_world (Inr (VDict [(''action'', VStr ''fly'')])) [] =
       (unknown_action ''fly'',
        [Install, Chrome (chrome_options calm_world), SetPageLoadTimeout 1 (browser_timeout + 30),
         Quit 1])
   \<and> run calm_world (Inr (VDict [(''action'', VStr ''fly''), (''payload'', VList [])])) [] =
       (unknown_action ''fly'',
        [Install, Chrome (chrome_options calm_world), SetPageLoadTimeout 1 (browser_timeout + 30),
         Quit 1])
   \<and> run calm_world (Inr (VDict [(''action'', VStr ''fly''), (''payload'', VList [VInt 1])])) [] =
       (unexpected_error (attribute_error (VList [VInt 1]) ''get''),
        [Install, Chrome (chrome_options calm_world), SetPageLoadTimeout 1 (browser_timeout + 30),
         Quit 1])
   \<and> run no_chrome_world (Inr (VDict [(''action'', VStr ''fly'')])) [] =
       (unexpected_error (Exn ''WebDriverException'' ''no chrome''), [Install])"
proof -
  let ?s = "\<lparr>persistent_driver = None, calls = []\<rparr>"
  note t = run_dispatches_on_action[where w = calm_world and m = GET and p = "''/run''"
      and request_json = "Inr (VDict [])" and s = ?s and body = "[]" and tr = "[]"]
  note u = run_dispatches_on_action[where w = calm_world and body = "[(''action'', VStr ''fly'')]"
      and tr = "[]" and a = "''fly''" and pl = "VDict []"]
  note v = run_dispatches_on_action[where w = calm_world
      and body = "[(''action'', VStr ''fly''), (''payload'', VList [])]"
      and tr = "[]" and a = "''fly''" and pl = "VList []"]
  note x = run_dispatches_on_action[where w = calm_world
      and body = "[(''action'', VStr ''fly''), (''payload'', VList [VInt 1])]"
      and tr = "[]" and a = "''fly''" and pl = "VList [VInt 1]"]
  note y = run_dispatches_on_action[where w = no_chrome_world
      and body = "[(''action'', VStr ''fly'')]"
      and tr = "[]" and a = "''fly''" and pl = "VDict []"]
  have l: "lower ''fly'' \<noteq> ''login''" "lower ''fly'' \<noteq> ''scrape_dashboard''"
    by (simp_all add: lower_def lower_char_def)
  have c: "\<not> result_timeout calm_world tr" for tr by (simp add: calm_world_def)
  have n: "\<not> result_timeout no_chrome_world tr" for tr
    by (simp add: no_chrome_world_def calm_world_def)
  have 1: "fst (serve calm_world (Request GET ''/run'' (Inr (VDict []))) ?s) = None"
    using t by simp
  have 2: "serve calm_world (Request POST ''/run'' (Inr (VDict []))) ?s = (Some missing_action, ?s)"
    using t by (simp add: dict_get_def)
  have 3: "serve calm_world (Request GET ''/ping'' (Inr (VDict []))) ?s = (Some ping, ?s)"
    using t by simp
  have 4: "run calm_world (Inr (VDict [(''action'', VStr ''fly'')])) [] =
       (unknown_action ''fly'',
        [Install, Chrome (chrome_options calm_world), SetPageLoadTimeout 1 (browser_timeout + 30),
         Quit 1])"
    using u l calm_create c by (simp add: dict_get_def payload_or_empty_def)
  have 5: "run calm_world (Inr (VDict [(''action'', VStr ''fly''), (''payload'', VList [])])) [] =
       (unknown_action ''fly'',
        [Install, Chrome (chrome_options calm_world), SetPageLoadTimeout 1 (browser_timeout + 30),
         Quit 1])"
    using v l calm_create c by (simp add: dict_get_def payload_or_empty_def)
  have 6: "run calm_world (Inr (VDict [(''action'', VStr ''fly''), (''payload'', VList [VInt 1])])) [] =
       (unexpected_error (attribute_error (VList [VInt 1]) ''get''),
        [Install, Chrome (chrome_options calm_world), SetPageLoadTimeout 1 (browser_timeout + 30),
         Quit 1])"
    using x l calm_create c by (simp add: dict_get_def payload_or_empty_def)
  have 7: "run no_chrome_world (Inr (VDict [(''action'', VStr ''fly'')])) [] =
       (unexpected_error (Exn ''WebDriverException'' ''no chrome''), [Install])"
    using y l no_chrome_create n by (simp add: dict_get_def)
  from 1 2 3 4 5 6 7 show ?thesis by blast
qed




end
